theory Spec2Isabelle
  imports Complex_Main "HOL-Library.Sublist" "HOL-Library.AList"
begin

section \<open>JavaScript values, strings and exceptions\<close>

text \<open>
  Values that travel between the language model, the orchestrator and the tools are JSON
  values: tool arguments are the result of \<^verbatim>\<open>JSON.parse\<close>, tool results are object
  literals. Numbers are JavaScript doubles in the source; no function modelled here does
  arithmetic on them, so they are kept as rationals and the one formatting call
  (\<^verbatim>\<open>toFixed\<close>) is a parameter of the model. An object is an association list in
  property order; a missing property (\<^verbatim>\<open>undefined\<close>) is \<open>None\<close>.
  A string is a list of 8-bit characters: a JavaScript string with characters beyond
  ASCII is kept as its UTF-8 encoding (so the two check marks of webmcpProvider.js line
  140 are three bytes each), and a string that is not well-formed Unicode has no
  counterpart here. \<^verbatim>\<open>includes\<close> compares code units and is the same on the
  encoding; \<^verbatim>\<open>toLowerCase\<close> depends on the Unicode character data, and what it does
  to a string with characters beyond ASCII is a parameter of the model.
\<close>

datatype json =
    JNull
  | JBool bool
  | JNumber rat
  | JString string
  | JArray "json list"
  | JObject "(string \<times> json) list"

datatype exn = TypeError | Error string

text \<open>The built-ins of the JavaScript runtime that the source calls and that are not
  part of the repository.\<close>

record runtime =
  JSON_parse :: "string \<Rightarrow> json option"
  JSON_stringify :: "json \<Rightarrow> string"
  Number_toFixed :: "rat \<Rightarrow> nat \<Rightarrow> string"
  Unicode_toLowerCase :: "string \<Rightarrow> string"

text \<open>\<^verbatim>\<open>String.prototype.toLowerCase\<close>. In a string of ASCII characters the letters A
  to Z become a to z and every other character stays; the lower case of a string with
  other characters is what the runtime says.\<close>

definition toLowerCaseChar :: "char \<Rightarrow> char" where
  "toLowerCaseChar c =
     (let n = (of_char c :: nat) in if 65 \<le> n \<and> n \<le> 90 then char_of (n + 32) else c)"

definition is_ascii :: "string \<Rightarrow> bool" where
  "is_ascii s = list_all (\<lambda>c. (of_char c :: nat) < 128) s"

definition toLowerCase :: "runtime \<Rightarrow> string \<Rightarrow> string" where
  "toLowerCase rt s = (if is_ascii s then map toLowerCaseChar s else Unicode_toLowerCase rt s)"

text \<open>\<^verbatim>\<open>String.prototype.includes\<close>: the argument occurs as a contiguous run of the
  receiver; the empty string occurs in every string.\<close>

fun startsWith :: "string \<Rightarrow> string \<Rightarrow> bool" where
  "startsWith _ [] = True"
| "startsWith [] (_ # _) = False"
| "startsWith (h # hs) (n # ns) = (h = n \<and> startsWith hs ns)"

fun String_includes :: "string \<Rightarrow> string \<Rightarrow> bool" where
  "String_includes [] needle = (needle = [])"
| "String_includes (h # hs) needle = (startsWith (h # hs) needle \<or> String_includes hs needle)"

text \<open>Reading a property of a parsed argument value, as the parameter destructuring
  \<^verbatim>\<open>({ accountIdentifier })\<close> does: \<^verbatim>\<open>null\<close> cannot be destructured and raises;
  an object yields the property or \<^verbatim>\<open>undefined\<close>; the other JSON values have none
  of the property names used by the tools.\<close>

fun get_property :: "json \<Rightarrow> string \<Rightarrow> exn + json option" where
  "get_property JNull k = Inl TypeError"
| "get_property (JObject kvs) k = Inr (map_of kvs k)"
| "get_property _ k = Inr None"

text \<open>
  Whether a value can be converted to a string, as the interpolation \<^verbatim>\<open>${x}\<close> in a
  template literal does. The primitive values and \<^verbatim>\<open>undefined\<close> can. An object is
  converted by its \<^verbatim>\<open>toString\<close>: a parsed object inherits one that yields
  \<^verbatim>\<open>[object Object]\<close>, unless it has a property of that name of its own, which is
  never a function; then \<^verbatim>\<open>valueOf\<close> is of no help either and the conversion raises
  a TypeError. An array joins the conversions of its elements.
\<close>

fun stringifiable :: "json \<Rightarrow> bool" where
  "stringifiable JNull = True"
| "stringifiable (JBool b) = True"
| "stringifiable (JNumber x) = True"
| "stringifiable (JString s) = True"
| "stringifiable (JArray xs) = list_all stringifiable xs"
| "stringifiable (JObject kvs) = (map_of kvs ''toString'' = None)"

fun interpolates :: "json option \<Rightarrow> bool" where
  "interpolates None = True"
| "interpolates (Some v) = stringifiable v"

text \<open>Sequencing of statements that may raise, and \<^verbatim>\<open>try { ... } catch (error) { ... }\<close>.
  A computation takes the state and returns the value or the exception, and the state
  it left behind; what was written before a raise stays written.\<close>

definition bind_js ::
  "(exn + 'a) \<times> 's \<Rightarrow> ('a \<Rightarrow> 's \<Rightarrow> (exn + 'b) \<times> 's) \<Rightarrow> (exn + 'b) \<times> 's" where
  "bind_js m f = (case m of (Inl e, s) \<Rightarrow> (Inl e, s) | (Inr a, s) \<Rightarrow> f a s)"

definition try_catch ::
  "(exn + 'a) \<times> 's \<Rightarrow> (exn \<Rightarrow> 's \<Rightarrow> (exn + 'a) \<times> 's) \<Rightarrow> (exn + 'a) \<times> 's" where
  "try_catch m handler = (case m of (Inl e, s) \<Rightarrow> handler e s | (Inr a, s) \<Rightarrow> (Inr a, s))"

section \<open>fidelityApp.js: the account table and the page\<close>

record account =
  acc_id :: string
  acc_name :: string
  balance :: rat
  acc_type :: string

definition mockAccountData :: "(string \<times> account) list" where
  "mockAccountData =
    [ (''acc_brokerage_123'',
        \<lparr>acc_id = ''acc_brokerage_123'', acc_name = ''Brokerage Account'',
         balance = 15430.25, acc_type = ''taxable''\<rparr>),
      (''acc_roth_456'',
        \<lparr>acc_id = ''acc_roth_456'', acc_name = ''Roth IRA'',
         balance = 89500.75, acc_type = ''retirement''\<rparr>),
      (''acc_401k_789'',
        \<lparr>acc_id = ''acc_401k_789'', acc_name = ''401(k) Rollover'',
         balance = 245100.40, acc_type = ''retirement''\<rparr>),
      (''acc_cash_101'',
        \<lparr>acc_id = ''acc_cash_101'', acc_name = ''Cash Management'',
         balance = 5200.00, acc_type = ''cash''\<rparr>) ]"

definition Object_values :: "(string \<times> 'v) list \<Rightarrow> 'v list" where
  "Object_values obj = map snd obj"

text \<open>The two entry lines that the application functions write to the console
  (fidelityApp.js lines 44 and 110); the rest of the console output is not modelled.\<close>

datatype app_log =
    ShowTransferModalCalled string string "json option"
  | HighlightAttempt string

text \<open>
  The state the tools act on: the account table and the page elements the application
  functions touch. An element looked up with \<^verbatim>\<open>getElementById\<close> may be absent
  (\<open>None\<close>); the three inputs carry their value, the two panels their
  \<^verbatim>\<open>style.display\<close>. \<open>account_items\<close> are the \<^verbatim>\<open>.account-item\<close> elements, each
  with its id and whether it has the class \<^verbatim>\<open>highlight\<close>. The timers
  (\<^verbatim>\<open>setTimeout\<close>) and scrolling are not modelled.
\<close>

record app_state =
  accountData :: "(string \<times> account) list"
  fromAccount_input :: "string option"
  toAccount_input :: "string option"
  amount_input :: "string option"
  portfolio_summary :: "string option"
  transfer_module :: "string option"
  account_items :: "(string \<times> bool) list"
  app_console :: "app_log list"

text \<open>The functions that the table, a plain object, inherits from
  \<^verbatim>\<open>Object.prototype\<close> under their own name; \<^verbatim>\<open>constructor\<close> is inherited too and
  is the function \<^verbatim>\<open>Object\<close>.\<close>

definition Object_prototype_functions :: "string list" where
  "Object_prototype_functions =
     [''__defineGetter__'', ''__defineSetter__'', ''hasOwnProperty'', ''__lookupGetter__'',
      ''__lookupSetter__'', ''isPrototypeOf'', ''propertyIsEnumerable'', ''toString'',
      ''valueOf'', ''toLocaleString'']"

text \<open>\<^verbatim>\<open>mockAccountData[id]?.name || 'N/A'\<close>. An own key gives the name of the account,
  and the empty name is falsy; a key that is not in the table finds what the object
  inherits: a function, whose \<^verbatim>\<open>name\<close> is its function name, or for
  \<^verbatim>\<open>__proto__\<close> the prototype object, which has no \<^verbatim>\<open>name\<close>; any other key finds
  nothing.\<close>

definition name_or_NA :: "(string \<times> account) list \<Rightarrow> string \<Rightarrow> string" where
  "name_or_NA data k =
     (case map_of data k of
        Some a \<Rightarrow> if acc_name a = [] then ''N/A'' else acc_name a
      | None \<Rightarrow>
          if k = ''constructor'' then ''Object''
          else if k \<in> set Object_prototype_functions then k
          else ''N/A'')"

definition set_if_present :: "'a option \<Rightarrow> 'a \<Rightarrow> 'a option" where
  "set_if_present el v = (case el of None \<Rightarrow> None | Some _ \<Rightarrow> Some v)"

text \<open>\<^verbatim>\<open>App.showTransferModal({ from, to, amount })\<close>. The amount is formatted with
  \<^verbatim>\<open>amount.toFixed(2)\<close> only when the amount input exists; a value that is not a
  number has no such method, and the call raises after the two account inputs have been
  filled.\<close>

definition showTransferModal ::
  "runtime \<Rightarrow> string \<Rightarrow> string \<Rightarrow> json option \<Rightarrow> app_state \<Rightarrow> (exn + unit) \<times> app_state" where
  "showTransferModal rt fromId toId amount s =
     (let s0 = s\<lparr>app_console := app_console s @ [ShowTransferModalCalled fromId toId amount]\<rparr>;
          fromAccount = name_or_NA (accountData s0) fromId;
          toAccount = name_or_NA (accountData s0) toId;
          s1 = s0\<lparr>fromAccount_input := set_if_present (fromAccount_input s0) fromAccount\<rparr>;
          s2 = s1\<lparr>toAccount_input := set_if_present (toAccount_input s1) toAccount\<rparr>;
          panels = (\<lambda>t. t\<lparr>portfolio_summary := set_if_present (portfolio_summary t) ''none'',
                           transfer_module := set_if_present (transfer_module t) ''block''\<rparr>)
      in case amount_input s2 of
           None \<Rightarrow> (Inr (), panels s2)
         | Some _ \<Rightarrow>
             (case amount of
                Some (JNumber x) \<Rightarrow>
                  (Inr (), panels (s2\<lparr>amount_input := Some (Number_toFixed rt x 2)\<rparr>))
              | _ \<Rightarrow> (Inl TypeError, s2)))"

text \<open>\<^verbatim>\<open>App.highlightAccount(accountId)\<close>: every highlight is removed, then the element
  with id \<^verbatim>\<open>account-<id>\<close>, if there is one, is highlighted. It raises nothing.\<close>

definition highlightAccount :: "string \<Rightarrow> app_state \<Rightarrow> app_state" where
  "highlightAccount accountId s =
     (let s0 = s\<lparr>app_console := app_console s @ [HighlightAttempt accountId]\<rparr>;
          cleared = map (\<lambda>(eid, h). (eid, False)) (account_items s0);
          elementId = ''account-'' @ accountId
      in s0\<lparr>account_items := AList.map_entry elementId (\<lambda>_. True) cleared\<rparr>)"

section \<open>webmcpProvider.js: the tools\<close>

record tool =
  name :: string
  description :: string
  inputSchema :: json
  execute :: "json \<Rightarrow> app_state \<Rightarrow> (exn + json) \<times> app_state"

text \<open>An account object as a JSON value, in the property order of the table.\<close>

definition account_json :: "account \<Rightarrow> json" where
  "account_json a =
     JObject [(''id'', JString (acc_id a)), (''name'', JString (acc_name a)),
              (''balance'', JNumber (balance a)), (''type'', JString (acc_type a))]"

text \<open>Tool 1, \<^verbatim>\<open>getAccountList.execute()\<close> (webmcpProvider.js lines 26 to 33); it
  ignores its argument.\<close>

definition getAccountList_execute :: "json \<Rightarrow> app_state \<Rightarrow> (exn + json) \<times> app_state" where
  "getAccountList_execute parameters s =
     (Inr (JObject [(''success'', JBool True),
                    (''accounts'', JArray (map account_json (Object_values (accountData s))))]),
      s)"

definition getAccountList :: tool where
  "getAccountList =
     \<lparr>name = ''getAccountList'',
      description = ''Retrieves a list of all the user'' @ [CHR 0x27] @ ''s available accounts, including their names and unique IDs.'',
      inputSchema = JObject [(''type'', JString ''object''), (''properties'', JObject [])],
      execute = getAccountList_execute\<rparr>"

text \<open>The predicate of the fuzzy search, \<^verbatim>\<open>acc.name.toLowerCase().includes(lower)\<close>.\<close>

definition name_matches :: "runtime \<Rightarrow> string \<Rightarrow> account \<Rightarrow> bool" where
  "name_matches rt lower acc = String_includes (toLowerCase rt (acc_name acc)) lower"

text \<open>Tool 2, \<^verbatim>\<open>getAccountBalance.execute({ accountIdentifier })\<close>
  (webmcpProvider.js lines 49 to 73). The log line 50 interpolates the identifier and
  raises when it cannot be converted to a string. Only a string has the method
  \<^verbatim>\<open>toLowerCase\<close>; on any other value, or on \<^verbatim>\<open>undefined\<close>, line 54 raises.\<close>

definition getAccountBalance_execute ::
  "runtime \<Rightarrow> json \<Rightarrow> app_state \<Rightarrow> (exn + json) \<times> app_state" where
  "getAccountBalance_execute rt parameters s =
     (case get_property parameters ''accountIdentifier'' of
        Inl e \<Rightarrow> (Inl e, s)
      | Inr accountIdentifier \<Rightarrow>
     (if \<not> interpolates accountIdentifier then (Inl TypeError, s)
      else
     (case accountIdentifier of
        Some (JString identifier) \<Rightarrow>
          (let lowerIdentifier = toLowerCase rt identifier
           in case find (name_matches rt lowerIdentifier) (Object_values (accountData s)) of
                Some account \<Rightarrow>
                  (Inr (JObject [(''success'', JBool True),
                                 (''accountName'', JString (acc_name account)),
                                 (''balance'', JNumber (balance account))]),
                   highlightAccount (acc_id account) s)
              | None \<Rightarrow>
                  (Inr (JObject [(''success'', JBool False),
                                 (''message'',
                                  JString (''Account '' @ [CHR 0x27] @ identifier
                                           @ [CHR 0x27] @ '' not found.''))]),
                   s))
      | _ \<Rightarrow> (Inl TypeError, s))))"

text \<open>The marks of the not-found message (line 140): U+2713 and U+2717 in UTF-8.\<close>

definition check_mark :: "bool \<Rightarrow> string" where
  "check_mark found =
     (if found then [CHR 0xE2, CHR 0x9C, CHR 0x93] else [CHR 0xE2, CHR 0x9C, CHR 0x97])"

text \<open>Tool 4, \<^verbatim>\<open>initiateFundTransfer.execute({ fromAccount, toAccount, amount })\<close>
  (webmcpProvider.js lines 114 to 156). The log line 116 interpolates the three
  arguments before anything else is done, and raises when one of them cannot be
  converted to a string; lines 120 and 121 raise when a name is not a string.\<close>

definition initiateFundTransfer_execute ::
  "runtime \<Rightarrow> json \<Rightarrow> app_state \<Rightarrow> (exn + json) \<times> app_state" where
  "initiateFundTransfer_execute rt parameters s =
     (case get_property parameters ''fromAccount'' of
        Inl e \<Rightarrow> (Inl e, s)
      | Inr fromAccount \<Rightarrow>
     (case get_property parameters ''toAccount'' of
        Inl e \<Rightarrow> (Inl e, s)
      | Inr toAccount \<Rightarrow>
     (case get_property parameters ''amount'' of
        Inl e \<Rightarrow> (Inl e, s)
      | Inr amount \<Rightarrow>
     (if \<not> (interpolates fromAccount \<and> interpolates toAccount \<and> interpolates amount)
      then (Inl TypeError, s)
      else
     (case (fromAccount, toAccount) of
        (Some (JString fromName), Some (JString toName)) \<Rightarrow>
          (let lowerFromAccount = toLowerCase rt fromName;
               lowerToAccount = toLowerCase rt toName;
               fromAcc = find (name_matches rt lowerFromAccount) (Object_values (accountData s));
               toAcc = find (name_matches rt lowerToAccount) (Object_values (accountData s))
           in case (fromAcc, toAcc) of
                (Some fa, Some ta) \<Rightarrow>
                  (case showTransferModal rt (acc_id fa) (acc_id ta) amount s of
                     (Inl e, s') \<Rightarrow> (Inl e, s')
                   | (Inr _, s') \<Rightarrow>
                       (Inr (JObject [(''success'', JBool True),
                                      (''message'',
                                       JString (''I'' @ [CHR 0x27] @ ''ve prepared the transfer for you. Please review and click '' @ [CHR 0x27] @ ''Submit'' @ [CHR 0x27] @ '' to complete it.''))]),
                        s'))
              | _ \<Rightarrow>
                  (Inr (JObject [(''success'', JBool False),
                                 (''message'',
                                  JString (''Account(s) not found. From: '' @ fromName @ '' ''
                                           @ check_mark (fromAcc \<noteq> None) @ '', To: '' @ toName
                                           @ '' '' @ check_mark (toAcc \<noteq> None)))]),
                   s))
      | _ \<Rightarrow> (Inl TypeError, s))))))"

definition getAccountBalance :: "runtime \<Rightarrow> tool" where
  "getAccountBalance rt =
     \<lparr>name = ''getAccountBalance'',
      description = ''Gets the current total market value for a specific account identified by its name or type (e.g., '' @ [CHR 0x27] @ ''Roth IRA'' @ [CHR 0x27] @ '', '' @ [CHR 0x27] @ ''Brokerage'' @ [CHR 0x27] @ '').'',
      inputSchema =
        JObject [(''type'', JString ''object''),
                 (''properties'',
                  JObject [(''accountIdentifier'',
                            JObject [(''type'', JString ''string''),
                                     (''description'', JString (''The name or type of the account to query, like '' @ [CHR 0x27] @ ''401k'' @ [CHR 0x27] @ '' or '' @ [CHR 0x27] @ ''Brokerage'' @ [CHR 0x27] @ ''.''))])]),
                 (''required'', JArray [JString ''accountIdentifier''])],
      execute = getAccountBalance_execute rt\<rparr>"

definition initiateFundTransfer :: "runtime \<Rightarrow> tool" where
  "initiateFundTransfer rt =
     \<lparr>name = ''initiateFundTransfer'',
      description = ''Pre-fills the fund transfer form to move a specific amount of money between two of the user'' @ [CHR 0x27] @ ''s Fidelity accounts. This action requires final user confirmation.'',
      inputSchema =
        JObject [(''type'', JString ''object''),
                 (''properties'',
                  JObject [(''fromAccount'',
                            JObject [(''type'', JString ''string''),
                                     (''description'', JString ''The name of the source account.'')]),
                           (''toAccount'',
                            JObject [(''type'', JString ''string''),
                                     (''description'', JString ''The name of the destination account.'')]),
                           (''amount'',
                            JObject [(''type'', JString ''number''),
                                     (''description'', JString ''The dollar amount to transfer.'')])]),
                 (''required'', JArray [JString ''fromAccount'', JString ''toAccount'', JString ''amount''])],
      execute = initiateFundTransfer_execute rt\<rparr>"

section \<open>main.js: the tool registry (the mock of \<^verbatim>\<open>window.agent\<close>)\<close>

text \<open>
  \<^verbatim>\<open>tools: new Map()\<close>. A JavaScript \<^verbatim>\<open>Map\<close> keeps its entries in insertion order;
  \<^verbatim>\<open>set\<close> on a key that is present replaces the value where it stands, on a new key
  it appends the entry.
\<close>

type_synonym registry = "(string \<times> tool) list"

definition Map_set :: "('k \<times> 'v) list \<Rightarrow> 'k \<Rightarrow> 'v \<Rightarrow> ('k \<times> 'v) list" where
  "Map_set m k v = AList.update k v m"

definition Map_get :: "('k \<times> 'v) list \<Rightarrow> 'k \<Rightarrow> 'v option" where
  "Map_get m k = map_of m k"

definition Map_has :: "('k \<times> 'v) list \<Rightarrow> 'k \<Rightarrow> bool" where
  "Map_has m k = (map_of m k \<noteq> None)"

definition Map_values :: "('k \<times> 'v) list \<Rightarrow> 'v list" where
  "Map_values m = map snd m"

text \<open>\<^verbatim>\<open>provideContext(context)\<close> (main.js lines 24 to 34), on the array
  \<^verbatim>\<open>context.tools\<close>: the registry is cleared and every tool of the batch is stored
  under its name, in order. The function has no \<^verbatim>\<open>return\<close> and no \<^verbatim>\<open>throw\<close>: the
  caller gets \<^verbatim>\<open>undefined\<close> back.\<close>

definition provideContext :: "tool list \<Rightarrow> registry \<Rightarrow> (exn + unit) \<times> registry" where
  "provideContext context_tools tools =
     (Inr (), fold (\<lambda>tool m. Map_set m (name tool) tool) context_tools [])"

section \<open>The wire format of the chat-completions endpoint\<close>

record tool_call =
  call_id :: string
  function_name :: string
  function_arguments :: string

record api_message =
  content :: "string option"
  tool_calls :: "tool_call list option"

text \<open>The parsed reply; \<open>choices\<close> holds the \<^verbatim>\<open>message\<close> of each choice.\<close>

record api_response =
  choices :: "api_message list"

record function_declaration =
  decl_type :: string
  fn_name :: string
  fn_description :: string
  fn_parameters :: json

datatype chat_message =
    SystemMessage string
  | UserMessage string
  | AssistantMessage api_message
  | ToolMessage string string

record request =
  req_model :: string
  messages :: "chat_message list"
  req_tools :: "function_declaration list option"
  tool_choice :: "string option"
  max_tokens :: nat
  req_temperature :: rat

text \<open>What one \<^verbatim>\<open>fetch\<close> with the reading of its body yields inside \<^verbatim>\<open>callOpenAI\<close>:
  either the parsed reply, or the exception that \<^verbatim>\<open>callOpenAI\<close> raises before it
  reaches \<^verbatim>\<open>processOpenAIResponse\<close> (a rejected \<^verbatim>\<open>fetch\<close>, the \<^verbatim>\<open>throw\<close> of line 150
  on a status that is not ok, a body that is not JSON).\<close>

datatype http_result = Raises exn | HttpOk api_response

text \<open>The calls that leave the orchestrator: the request sent with \<^verbatim>\<open>fetch\<close> (URL,
  bearer token, body) and the call \<^verbatim>\<open>tool.execute(parameters)\<close> of main.js line 48.\<close>

datatype event =
    Fetch string string request
  | ExecuteTool string json

fun is_Fetch :: "event \<Rightarrow> bool" where
  "is_Fetch (Fetch _ _ _) = True"
| "is_Fetch (ExecuteTool _ _) = False"

fun is_ExecuteTool :: "event \<Rightarrow> bool" where
  "is_ExecuteTool (ExecuteTool _ _) = True"
| "is_ExecuteTool (Fetch _ _ _) = False"

text \<open>The provider is any function of the number of requests sent before and of the
  request.\<close>

type_synonym provider_fn = "nat \<Rightarrow> request \<Rightarrow> http_result"

section \<open>config.js\<close>

text \<open>\<^verbatim>\<open>logRequests\<close> and \<^verbatim>\<open>logResponses\<close> only add console output and are left out.\<close>

record config =
  provider :: string
  apiKey :: string
  baseUrl :: string
  model :: string
  maxTokens :: nat
  temperature :: rat
  enableMockMode :: bool

definition Config :: config where
  "Config =
     \<lparr>provider = ''openai'', apiKey = ''sk-your-api-key-here'',
      baseUrl = ''https://api.openai.com/v1'', model = ''gpt-4-turbo-preview'',
      maxTokens = 1500, temperature = 0.1, enableMockMode = False\<rparr>"

definition getApiKey :: "config \<Rightarrow> exn + string" where
  "getApiKey cfg =
     (if apiKey cfg \<noteq> [] then Inr (apiKey cfg)
      else if enableMockMode cfg then Inr ''mock-key''
      else Inl (Error ''API key not configured. Please set Config.llm.apiKey or enable mock mode.''))"

section \<open>llmClient.js\<close>

record world =
  app :: app_state
  conversationHistory :: "chat_message list"
  events :: "event list"

datatype llm_response =
    Function_call string json string
  | Text "string option"
  | ErrorResponse string

definition formatToolsForOpenAI :: "registry \<Rightarrow> function_declaration list" where
  "formatToolsForOpenAI tools =
     map (\<lambda>tool. \<lparr>decl_type = ''function'', fn_name = name tool,
                  fn_description = description tool, fn_parameters = inputSchema tool\<rparr>)
         (Map_values tools)"

fun join :: "string \<Rightarrow> string list \<Rightarrow> string" where
  "join sep [] = []"
| "join sep [x] = x"
| "join sep (x # y # ys) = x @ sep @ join sep (y # ys)"

definition system_content :: "string list \<Rightarrow> string" where
  "system_content names =
     ''You are a helpful financial assistant for Fidelity Investments. You can help users with account inquiries, portfolio performance, and fund transfers. ''
     @ [CHR 0x0A] @ replicate 20 (CHR '' '') @ [CHR 0x0A] @ replicate 20 (CHR '' '')
     @ ''Available tools: '' @ join '', '' names
     @ [CHR 0x0A] @ replicate 20 (CHR '' '') @ [CHR 0x0A] @ replicate 20 (CHR '' '')
     @ ''Always be helpful and professional. When users request transfers, explain that you''
     @ [CHR 0x27]
     @ ''ll prepare the form but they need to confirm the transaction for security.''"

text \<open>\<^verbatim>\<open>processOpenAIResponse(apiResponse)\<close> (lines 172 to 217). Reading
  \<^verbatim>\<open>apiResponse.choices[0].message\<close> of a reply without choices raises.\<close>

definition processOpenAIResponse ::
  "runtime \<Rightarrow> api_response \<Rightarrow> world \<Rightarrow> (exn + llm_response) \<times> world" where
  "processOpenAIResponse rt apiResponse w =
     (case choices apiResponse of
        [] \<Rightarrow> (Inl TypeError, w)
      | message # _ \<Rightarrow>
          (let w1 = w\<lparr>conversationHistory := conversationHistory w @ [AssistantMessage message]\<rparr>
           in case tool_calls message of
                Some (toolCall # _) \<Rightarrow>
                  (case JSON_parse rt (function_arguments toolCall) of
                     None \<Rightarrow>
                       (Inr (ErrorResponse ''I had trouble understanding the parameters for that request.''), w1)
                   | Some functionArgs \<Rightarrow>
                       (Inr (Function_call (function_name toolCall) functionArgs (call_id toolCall)), w1))
              | _ \<Rightarrow> (Inr (Text (content message)), w1)))"

text \<open>\<^verbatim>\<open>callOpenAI(userMessage, availableTools, apiKey)\<close> (lines 101 to 167).\<close>

definition callOpenAI ::
  "runtime \<Rightarrow> provider_fn \<Rightarrow> config \<Rightarrow> string \<Rightarrow> registry \<Rightarrow> string \<Rightarrow> world
     \<Rightarrow> (exn + llm_response) \<times> world" where
  "callOpenAI rt fetch cfg userMessage availableTools key w =
     (let tools = formatToolsForOpenAI availableTools;
          requestBody =
            \<lparr>req_model = model cfg,
             messages = SystemMessage (system_content (map fn_name tools)) # conversationHistory w,
             req_tools = (if length tools > 0 then Some tools else None),
             tool_choice = (if length tools > 0 then Some ''auto'' else None),
             max_tokens = maxTokens cfg,
             req_temperature = temperature cfg\<rparr>;
          sent = length (filter is_Fetch (events w));
          w1 = w\<lparr>events := events w @ [Fetch (baseUrl cfg @ ''/chat/completions'') key requestBody]\<rparr>
      in case fetch sent requestBody of
           Raises e \<Rightarrow> (Inl e, w1)
         | HttpOk data \<Rightarrow> processOpenAIResponse rt data w1)"

definition mockResponse :: "string \<Rightarrow> llm_response" where
  \<open>mockResponse userMessage =
     Text (Some (''Mock LLM response to: "'' @ userMessage
                 @ ''". Enable a real LLM provider in config.js for actual AI responses.''))\<close>

definition callAnthropic :: "world \<Rightarrow> (exn + llm_response) \<times> world" where
  "callAnthropic w = (Inl (Error ''Anthropic integration not implemented yet''), w)"

text \<open>\<^verbatim>\<open>generateResponse(userMessage, availableTools)\<close> (lines 50 to 96): whatever is
  raised inside is caught and becomes an error response.\<close>

definition generateResponse ::
  "runtime \<Rightarrow> provider_fn \<Rightarrow> config \<Rightarrow> string \<Rightarrow> registry \<Rightarrow> world
     \<Rightarrow> (exn + llm_response) \<times> world" where
  "generateResponse rt fetch cfg userMessage availableTools w =
     try_catch
       (if enableMockMode cfg then (Inr (mockResponse userMessage), w)
        else
          (case getApiKey cfg of
             Inl e \<Rightarrow> (Inl e, w)
           | Inr key \<Rightarrow>
               (let w1 = w\<lparr>conversationHistory := conversationHistory w @ [UserMessage userMessage]\<rparr>
                in if provider cfg = ''openai'' then
                     callOpenAI rt fetch cfg userMessage availableTools key w1
                   else if provider cfg = ''anthropic'' then callAnthropic w1
                   else (Inl (Error (''Unsupported LLM provider: '' @ provider cfg)), w1))))
       (\<lambda>error w'.
          (Inr (ErrorResponse ''Sorry, I encountered an error processing your request. Please try again.''), w'))"

text \<open>\<^verbatim>\<open>handleFunctionResult(toolCallId, functionName, functionResult)\<close> (lines 222 to
  239): the tool result is appended to the history and the provider is asked again, with
  \<^verbatim>\<open>new Map()\<close> as the tool set. Nothing is caught here.\<close>

definition handleFunctionResult ::
  "runtime \<Rightarrow> provider_fn \<Rightarrow> config \<Rightarrow> string \<Rightarrow> string \<Rightarrow> json \<Rightarrow> world
     \<Rightarrow> (exn + llm_response) \<times> world" where
  "handleFunctionResult rt fetch cfg toolCallId functionName functionResult w =
     (let w1 = w\<lparr>conversationHistory :=
                   conversationHistory w @ [ToolMessage (JSON_stringify rt functionResult) toolCallId]\<rparr>
      in case getApiKey cfg of
           Inl e \<Rightarrow> (Inl e, w1)
         | Inr key \<Rightarrow> callOpenAI rt fetch cfg [] [] key w1)"

section \<open>main.js and agentClient.js: invoking a tool, processing a prompt\<close>

definition unknown_action :: json where
  "unknown_action = JObject [(''success'', JBool False), (''message'', JString ''Unknown action.'')]"

definition internal_error :: json where
  "internal_error =
     JObject [(''success'', JBool False), (''message'', JString ''An internal error occurred.'')]"

text \<open>\<^verbatim>\<open>invokeTool(toolName, parameters)\<close> (main.js lines 38 to 60). The test
  \<^verbatim>\<open>this.tools.has(toolName)\<close> and the read \<^verbatim>\<open>this.tools.get(toolName)\<close> are one
  lookup. The executor acts on the application state; what it wrote before raising
  stays.\<close>

definition invokeTool :: "registry \<Rightarrow> string \<Rightarrow> json \<Rightarrow> world \<Rightarrow> (exn + json) \<times> world" where
  "invokeTool tools toolName parameters w =
     (case Map_get tools toolName of
        Some tool \<Rightarrow>
          try_catch
            (let w1 = w\<lparr>events := events w @ [ExecuteTool toolName parameters]\<rparr>;
                 (result, app') = execute tool parameters (app w1)
             in (result, w1\<lparr>app := app'\<rparr>))
            (\<lambda>error w'. (Inr internal_error, w'))
      | None \<Rightarrow> (Inr unknown_action, w))"

text \<open>What \<^verbatim>\<open>processUserPromptWithLLM\<close> hands back: an object \<^verbatim>\<open>{ message }\<close>, or the
  follow-up response of the client as it is, or whatever \<^verbatim>\<open>formatFunctionResult\<close>
  built. \<^verbatim>\<open>formatFunctionResult\<close> (lines 334 to 354) is reached only for a tool call
  without an id; it reads nothing but its two arguments and is a parameter here.\<close>

datatype 'f agent_response =
    Message "string option"
  | Final llm_response
  | Formatted 'f

definition processUserPromptMock :: "string \<Rightarrow> 'f agent_response" where
  \<open>processUserPromptMock prompt =
     Message (Some (''Mock response: I can help with account balances, transfers, and portfolio performance. Try: "What''
                    @ [CHR 0x27] @ ''s my Roth IRA balance?" or "Transfer $1000 from Brokerage to Roth IRA"''))\<close>

text \<open>\<^verbatim>\<open>processUserPromptWithLLM(prompt)\<close> (agentClient.js, lines 263 to 329 of
  webmcpProvider.js as concatenated). The \<^verbatim>\<open>switch\<close> has a \<^verbatim>\<open>default\<close> branch for
  other response types; the client produces none.\<close>

definition processUserPromptWithLLM ::
  "runtime \<Rightarrow> provider_fn \<Rightarrow> (string \<Rightarrow> json \<Rightarrow> exn + 'f) \<Rightarrow> config \<Rightarrow> registry \<Rightarrow> string \<Rightarrow> world
     \<Rightarrow> (exn + 'f agent_response) \<times> world" where
  "processUserPromptWithLLM rt fetch formatFunctionResult cfg tools prompt w =
     try_catch
       (bind_js (generateResponse rt fetch cfg prompt tools w) (\<lambda>llmResponse w1.
          case llmResponse of
            Function_call functionName arguments toolCallId \<Rightarrow>
              bind_js (invokeTool tools functionName arguments w1) (\<lambda>functionResult w2.
                if toolCallId \<noteq> [] then
                  bind_js (handleFunctionResult rt fetch cfg toolCallId functionName functionResult w2)
                    (\<lambda>finalResponse w3. (Inr (Final finalResponse), w3))
                else
                  (case formatFunctionResult functionName functionResult of
                     Inl e \<Rightarrow> (Inl e, w2)
                   | Inr r \<Rightarrow> (Inr (Formatted r), w2)))
          | Text message \<Rightarrow> (Inr (Message message), w1)
          | ErrorResponse message \<Rightarrow> (Inr (Message (Some message)), w1)))
       (\<lambda>error w'.
          if enableMockMode cfg then (Inr (processUserPromptMock prompt), w')
          else (Inr (Message (Some ''I encountered an error processing your request. Please try again.'')), w'))"

text \<open>The \<^verbatim>\<open>message\<close> property that \<^verbatim>\<open>handleSend\<close> reads from a client response
  (\<^verbatim>\<open>if (response.message)\<close>): a function-call response has none.\<close>

fun response_message :: "llm_response \<Rightarrow> string option" where
  "response_message (Function_call _ _ _) = None"
| "response_message (Text m) = m"
| "response_message (ErrorResponse m) = Some m"

section \<open>The outcomes that count as errors\<close>

text \<open>
  The three fixed texts with which the source reports a failure to the user: the
  \<^verbatim>\<open>catch\<close> of \<^verbatim>\<open>generateResponse\<close>, the unparsable arguments of
  \<^verbatim>\<open>processOpenAIResponse\<close>, and the \<^verbatim>\<open>catch\<close> of \<^verbatim>\<open>processUserPromptWithLLM\<close>.
\<close>

definition error_messages :: "string list" where
  "error_messages =
     [''Sorry, I encountered an error processing your request. Please try again.'',
      ''I had trouble understanding the parameters for that request.'',
      ''I encountered an error processing your request. Please try again.'']"

text \<open>An outcome of \<^verbatim>\<open>processUserPromptWithLLM\<close> is an error outcome when an exception
  leaves it, when it hands back one of the fixed error texts, or when the follow-up
  response is an error response.\<close>

fun Errored :: "exn + 'f agent_response \<Rightarrow> bool" where
  "Errored (Inl e) = True"
| "Errored (Inr (Message m)) = (m \<in> set (map Some error_messages))"
| "Errored (Inr (Final (ErrorResponse m))) = True"
| "Errored (Inr (Final (Function_call f a i))) = False"
| "Errored (Inr (Final (Text m))) = False"
| "Errored (Inr (Formatted r)) = False"

text \<open>A provider that answers every request with a reply whose first choice carries at
  least one tool call, with arguments that parse and with a call id.\<close>

definition always_tool_call :: "runtime \<Rightarrow> provider_fn \<Rightarrow> bool" where
  "always_tool_call rt fetch =
     (\<forall>n req.
        case fetch n req of
          Raises e \<Rightarrow> False
        | HttpOk r \<Rightarrow>
            (case choices r of
               [] \<Rightarrow> False
             | m # ms \<Rightarrow>
                 (case tool_calls m of
                    Some (tc # tcs) \<Rightarrow>
                      JSON_parse rt (function_arguments tc) \<noteq> None \<and> call_id tc \<noteq> []
                  | _ \<Rightarrow> False)))"

section \<open>Concrete inputs\<close>

text \<open>The page after \<^verbatim>\<open>App.renderAccountList()\<close>, with the transfer form present and
  hidden.\<close>

definition page_loaded :: app_state where
  "page_loaded =
     \<lparr>accountData = mockAccountData,
      fromAccount_input = Some [],
      toAccount_input = Some [],
      amount_input = Some [],
      portfolio_summary = Some [],
      transfer_module = Some ''none'',
      account_items = map (\<lambda>a. (''account-'' @ acc_id a, False)) (Object_values mockAccountData),
      app_console = []\<rparr>"

definition roth_arguments :: json where
  "roth_arguments = JObject [(''accountIdentifier'', JString ''Roth IRA'')]"

definition savings_arguments :: json where
  "savings_arguments = JObject [(''accountIdentifier'', JString ''Savings'')]"

definition transfer_arguments :: json where
  "transfer_arguments =
     JObject [(''fromAccount'', JString ''cash''), (''toAccount'', JString ''Roth IRA''),
              (''amount'', JNumber 250)]"

definition transfer_unknown_source :: json where
  "transfer_unknown_source =
     JObject [(''fromAccount'', JString ''Savings''), (''toAccount'', JString ''Roth IRA''),
              (''amount'', JNumber 250)]"

definition transfer_text_amount :: json where
  "transfer_text_amount =
     JObject [(''fromAccount'', JString ''cash''), (''toAccount'', JString ''Roth IRA''),
              (''amount'', JString ''250'')]"

text \<open>An amount that cannot be converted to a string, with a source that does not
  exist.\<close>

definition transfer_unprintable_amount :: json where
  "transfer_unprintable_amount =
     JObject [(''fromAccount'', JString ''Savings''), (''toAccount'', JString ''Roth IRA''),
              (''amount'', JObject [(''toString'', JNull)])]"

text \<open>The identifier that consists of the character U+212A, KELVIN SIGN, whose lower
  case is the letter k.\<close>

definition kelvin_sign :: string where
  "kelvin_sign = [CHR 0xE2, CHR 0x84, CHR 0xAA]"

definition kelvin_arguments :: json where
  "kelvin_arguments = JObject [(''accountIdentifier'', JString kelvin_sign)]"

text \<open>A \<^verbatim>\<open>toLowerCase\<close> for the examples: it knows the ASCII letters and the Kelvin
  sign.\<close>

fun lower_ascii_kelvin :: "string \<Rightarrow> string" where
  "lower_ascii_kelvin [] = []"
| "lower_ascii_kelvin (c # cs) =
     (if take 3 (c # cs) = [CHR 0xE2, CHR 0x84, CHR 0xAA]
      then CHR ''k'' # lower_ascii_kelvin (drop 2 cs)
      else toLowerCaseChar c # lower_ascii_kelvin cs)"

text \<open>A runtime that parses the two argument texts used below.\<close>

definition example_runtime :: runtime where
  \<open>example_runtime =
     \<lparr>JSON_parse = map_of
        [(''{"accountIdentifier":"Roth IRA"}'', roth_arguments),
         (''{"fromAccount":"cash","toAccount":"Roth IRA","amount":250}'', transfer_arguments)],
      JSON_stringify = (\<lambda>v. ''<json>''),
      Number_toFixed = (\<lambda>x digits. ''<fixed>''),
      Unicode_toLowerCase = lower_ascii_kelvin\<rparr>\<close>

definition balance_call :: tool_call where
  \<open>balance_call =
     \<lparr>call_id = ''call_1'', function_name = ''getAccountBalance'',
      function_arguments = ''{"accountIdentifier":"Roth IRA"}''\<rparr>\<close>


definition transfer_call :: tool_call where
  \<open>transfer_call =
     \<lparr>call_id = ''call_7'', function_name = ''initiateFundTransfer'',
      function_arguments = ''{"fromAccount":"cash","toAccount":"Roth IRA","amount":250}''\<rparr>\<close>

text \<open>A provider stub that answers every request with the same tool call.\<close>

definition always_calls :: provider_fn where
  "always_calls n req =
     HttpOk \<lparr>choices = [\<lparr>content = None, tool_calls = Some [balance_call]\<rparr>]\<rparr>"

text \<open>A provider stub that asks for the balance in its first reply and for a transfer
  in every later one.\<close>

definition balance_then_transfer :: provider_fn where
  "balance_then_transfer n req =
     (if n = 0 then HttpOk \<lparr>choices = [\<lparr>content = None, tool_calls = Some [balance_call]\<rparr>]\<rparr>
      else HttpOk \<lparr>choices = [\<lparr>content = None, tool_calls = Some [transfer_call]\<rparr>]\<rparr>)"


definition example_tools :: registry where
  "example_tools =
     snd (provideContext
            [getAccountBalance example_runtime, initiateFundTransfer example_runtime] [])"

text \<open>A batch in which two tools carry the same name.\<close>

definition duplicate_batch :: "tool list" where
  "duplicate_batch =
     [getAccountBalance example_runtime,
      (getAccountBalance example_runtime)\<lparr>description := ''A second tool under the same name.''\<rparr>]"

definition start :: world where
  "start = \<lparr>app = page_loaded, conversationHistory = [], events = []\<rparr>"

definition no_format :: "string \<Rightarrow> json \<Rightarrow> exn + unit" where
  "no_format functionName result = Inl TypeError"

section \<open>Facts about the string functions\<close>

lemma char_of_eq_char: "(char_of (n::nat) = c) = (n mod 256 = of_char c)"
  by (metis char_of_char char_of_eq_iff of_char_of)

lemma startsWith_prefix: "startsWith h n = prefix n h"
  by (induction h n rule: startsWith.induct) auto

lemma String_includes_sublist: "String_includes h n = sublist n h"
  by (induction h n rule: String_includes.induct)
     (auto simp: startsWith_prefix sublist_Cons_right)

lemma name_matches_sublist:
  "name_matches rt l a = sublist l (toLowerCase rt (acc_name a))"
  by (simp add: name_matches_def String_includes_sublist)

lemma lower_names:
  "toLowerCase rt ''Brokerage Account'' = ''brokerage account''"
  "toLowerCase rt ''Roth IRA'' = ''roth ira''"
  "toLowerCase rt ''401(k) Rollover'' = ''401(k) rollover''"
  "toLowerCase rt ''Cash Management'' = ''cash management''"
  "toLowerCase rt ''Savings'' = ''savings''"
  "toLowerCase rt ''cash'' = ''cash''"
  by (simp_all add: toLowerCase_def is_ascii_def toLowerCaseChar_def char_of_eq_char)

lemma example_lower_kelvin: "toLowerCase example_runtime kelvin_sign = ''k''"
  by (simp add: toLowerCase_def is_ascii_def example_runtime_def kelvin_sign_def)

lemma find_first_match:
  assumes "i < length xs" "P (xs ! i)" "\<forall>j < i. \<not> P (xs ! j)"
  shows "find P xs = Some (xs ! i)"
  unfolding find_Some_iff using assms by blast

lemma find_roth:
  "find (name_matches rt ''roth ira'') (Object_values mockAccountData)
     = Some (snd (mockAccountData ! 1))"
  by (simp add: mockAccountData_def Object_values_def name_matches_def lower_names)

lemma find_cash:
  "find (name_matches rt ''cash'') (Object_values mockAccountData)
     = Some (snd (mockAccountData ! 3))"
  by (simp add: mockAccountData_def Object_values_def name_matches_def lower_names)

lemma find_savings:
  "find (name_matches rt ''savings'') (Object_values mockAccountData) = None"
  by (simp add: mockAccountData_def Object_values_def name_matches_def lower_names)

section \<open>The balance lookup\<close>

text \<open>
  C7. For every accountIdentifier string whose lower-case form occurs in the lower-case
  name of some account, \<^verbatim>\<open>getAccountBalance.execute\<close> answers with success, the name
  and the balance of the first such account in the order of the account table; for
  \<^verbatim>\<open>"Roth IRA"\<close> on the table of the source that is Roth IRA with 89500.75. For an
  identifier that occurs in no account name it answers with a failure and the not-found
  message, and leaves the page as it was. Lower case is the result of
  \<^verbatim>\<open>toLowerCase\<close>: fixed on ASCII strings, and whatever the runtime yields on the
  others.
\<close>

theorem getAccountBalance_fuzzy_match:
  assumes "get_property parameters ''accountIdentifier'' = Inr (Some (JString ident))"
  shows "(\<forall>i < length (accountData s).
            sublist (toLowerCase rt ident)
                    (toLowerCase rt (acc_name (snd (accountData s ! i)))) \<and>
            (\<forall>j < i. \<not> sublist (toLowerCase rt ident)
                                (toLowerCase rt (acc_name (snd (accountData s ! j)))))
            \<longrightarrow> fst (getAccountBalance_execute rt parameters s) =
                  Inr (JObject [(''success'', JBool True),
                                (''accountName'', JString (acc_name (snd (accountData s ! i)))),
                                (''balance'', JNumber (balance (snd (accountData s ! i))))]))
       \<and> ((\<forall>kv \<in> set (accountData s).
               \<not> sublist (toLowerCase rt ident)
                          (toLowerCase rt (acc_name (snd kv))))
            \<longrightarrow> getAccountBalance_execute rt parameters s =
                  (Inr (JObject [(''success'', JBool False),
                                 (''message'',
                                  JString (''Account '' @ [CHR 0x27] @ ident @ [CHR 0x27]
                                           @ '' not found.''))]), s))
       \<and> (accountData s = mockAccountData \<and> ident = ''Roth IRA''
            \<longrightarrow> fst (getAccountBalance_execute rt parameters s) =
                  Inr (JObject [(''success'', JBool True),
                                (''accountName'', JString ''Roth IRA''),
                                (''balance'', JNumber 89500.75)]))"
proof (intro conjI allI impI)
  fix i
  assume i: "i < length (accountData s)"
    and m: "sublist (toLowerCase rt ident)
                    (toLowerCase rt (acc_name (snd (accountData s ! i)))) \<and>
            (\<forall>j < i. \<not> sublist (toLowerCase rt ident)
                          (toLowerCase rt (acc_name (snd (accountData s ! j)))))"
  have "find (name_matches rt (toLowerCase rt ident)) (Object_values (accountData s))
          = Some (Object_values (accountData s) ! i)"
    using i m by (intro find_first_match) (auto simp: Object_values_def name_matches_sublist)
  then show "fst (getAccountBalance_execute rt parameters s) =
                  Inr (JObject [(''success'', JBool True),
                                (''accountName'', JString (acc_name (snd (accountData s ! i)))),
                                (''balance'', JNumber (balance (snd (accountData s ! i))))])"
    using assms i by (simp add: getAccountBalance_execute_def Object_values_def)
next
  assume "\<forall>kv \<in> set (accountData s).
            \<not> sublist (toLowerCase rt ident) (toLowerCase rt (acc_name (snd kv)))"
  then have "find (name_matches rt (toLowerCase rt ident))
               (Object_values (accountData s)) = None"
    by (auto simp: find_None_iff Object_values_def name_matches_sublist)
  then show "getAccountBalance_execute rt parameters s =
                  (Inr (JObject [(''success'', JBool False),
                                 (''message'',
                                  JString (''Account '' @ [CHR 0x27] @ ident @ [CHR 0x27]
                                           @ '' not found.''))]), s)"
    using assms by (simp add: getAccountBalance_execute_def)
next
  assume "accountData s = mockAccountData \<and> ident = ''Roth IRA''"
  then show "fst (getAccountBalance_execute rt parameters s) =
                  Inr (JObject [(''success'', JBool True),
                                (''accountName'', JString ''Roth IRA''),
                                (''balance'', JNumber 89500.75)])"
    using assms
    by (simp add: getAccountBalance_execute_def lower_names find_roth)
       (simp add: mockAccountData_def)
qed

text \<open>The theorem at the identifiers \<^verbatim>\<open>"Roth IRA"\<close> and \<^verbatim>\<open>"Savings"\<close>, and at the
  Kelvin sign, which a runtime that lowers it to k finds in Brokerage Account.\<close>

theorem getAccountBalance_fuzzy_match_witness:
  "get_property roth_arguments ''accountIdentifier'' = Inr (Some (JString ''Roth IRA''))
   \<and> fst (getAccountBalance_execute example_runtime roth_arguments page_loaded) =
        Inr (JObject [(''success'', JBool True), (''accountName'', JString ''Roth IRA''),
                      (''balance'', JNumber 89500.75)])
   \<and> get_property savings_arguments ''accountIdentifier'' = Inr (Some (JString ''Savings''))
   \<and> getAccountBalance_execute example_runtime savings_arguments page_loaded =
        (Inr (JObject [(''success'', JBool False),
                       (''message'', JString ''Account 'Savings' not found.'')]), page_loaded)
   \<and> get_property kelvin_arguments ''accountIdentifier'' = Inr (Some (JString kelvin_sign))
   \<and> fst (getAccountBalance_execute example_runtime kelvin_arguments page_loaded) =
        Inr (JObject [(''success'', JBool True), (''accountName'', JString ''Brokerage Account''),
                      (''balance'', JNumber 15430.25)])"
proof -
  have p1: "get_property roth_arguments ''accountIdentifier'' = Inr (Some (JString ''Roth IRA''))"
    by (simp add: roth_arguments_def)
  have p2: "get_property savings_arguments ''accountIdentifier'' = Inr (Some (JString ''Savings''))"
    by (simp add: savings_arguments_def)
  have p3: "get_property kelvin_arguments ''accountIdentifier'' = Inr (Some (JString kelvin_sign))"
    by (simp add: kelvin_arguments_def)
  have d: "accountData page_loaded = mockAccountData"
    by (simp add: page_loaded_def)
  have none: "\<forall>kv \<in> set (accountData page_loaded).
                \<not> sublist (toLowerCase example_runtime ''Savings'')
                           (toLowerCase example_runtime (acc_name (snd kv)))"
    using find_savings
    by (simp add: d find_None_iff Object_values_def name_matches_sublist lower_names)
  have k: "0 < length (accountData page_loaded)
     \<and> sublist (toLowerCase example_runtime kelvin_sign)
               (toLowerCase example_runtime (acc_name (snd (accountData page_loaded ! 0))))
     \<and> (\<forall>j < 0. \<not> sublist (toLowerCase example_runtime kelvin_sign)
               (toLowerCase example_runtime (acc_name (snd (accountData page_loaded ! j)))))"
    by (simp add: d mockAccountData_def example_lower_kelvin lower_names
          String_includes_sublist [symmetric])
  from getAccountBalance_fuzzy_match [OF p1, of page_loaded example_runtime] d
  have r1: "fst (getAccountBalance_execute example_runtime roth_arguments page_loaded) =
        Inr (JObject [(''success'', JBool True), (''accountName'', JString ''Roth IRA''),
                      (''balance'', JNumber 89500.75)])"
    by blast
  from getAccountBalance_fuzzy_match [OF p2, of page_loaded example_runtime] none
  have r2: "getAccountBalance_execute example_runtime savings_arguments page_loaded =
        (Inr (JObject [(''success'', JBool False),
                       (''message'', JString ''Account 'Savings' not found.'')]), page_loaded)"
    by simp
  from getAccountBalance_fuzzy_match [OF p3, of page_loaded example_runtime] k
  have "fst (getAccountBalance_execute example_runtime kelvin_arguments page_loaded) =
        Inr (JObject [(''success'', JBool True),
                      (''accountName'', JString (acc_name (snd (accountData page_loaded ! 0)))),
                      (''balance'', JNumber (balance (snd (accountData page_loaded ! 0))))])"
    by blast
  then have r3: "fst (getAccountBalance_execute example_runtime kelvin_arguments page_loaded) =
        Inr (JObject [(''success'', JBool True), (''accountName'', JString ''Brokerage Account''),
                      (''balance'', JNumber 15430.25)])"
    by (simp add: d mockAccountData_def)
  show ?thesis using p1 p2 p3 r1 r2 r3 by blast
qed

section \<open>The transfer tool\<close>

lemma showTransferModal_accountData:
  "accountData (snd (showTransferModal rt fromId toId amount s)) = accountData s"
  by (simp add: showTransferModal_def Let_def split: option.splits json.splits)

lemma showTransferModal_console:
  "app_console (snd (showTransferModal rt fromId toId amount s))
     = app_console s @ [ShowTransferModalCalled fromId toId amount]"
  by (simp add: showTransferModal_def Let_def split: option.splits json.splits)

lemma initiateFundTransfer_accountData:
  "accountData (snd (initiateFundTransfer_execute rt parameters s)) = accountData s"
proof -
  have m: "\<And>a b. accountData (snd (case showTransferModal rt a b amount s of
                 (Inl e, s') \<Rightarrow> (Inl e, s')
               | (Inr u, s') \<Rightarrow> (Inr r, s'))) = accountData s" for amount and r :: json
  proof -
    fix a b
    obtain x s' where eq: "showTransferModal rt a b amount s = (x, s')"
      by (cases "showTransferModal rt a b amount s")
    then have "accountData s' = accountData s"
      using showTransferModal_accountData [of rt a b amount s] by simp
    with eq show "accountData (snd (case showTransferModal rt a b amount s of
                 (Inl e, s') \<Rightarrow> (Inl e, s')
               | (Inr u, s') \<Rightarrow> (Inr r, s'))) = accountData s"
      by (cases x) simp_all
  qed
  show ?thesis
    unfolding initiateFundTransfer_execute_def Let_def
    by (simp add: m split: sum.splits option.splits json.splits prod.splits)
qed

text \<open>
  C1. Every invocation of \<^verbatim>\<open>initiateFundTransfer.execute\<close>, whatever its arguments and
  whether it returns or raises, leaves the account table as it was, and so does a second
  invocation with the same arguments after the first: every balance is unchanged. The
  executor resolves the two names and calls \<^verbatim>\<open>App.showTransferModal\<close>, which writes to
  the form and the console only.
\<close>

theorem initiateFundTransfer_keeps_balances:
  "accountData (snd (initiateFundTransfer_execute rt parameters s)) = accountData s
   \<and> accountData (snd (initiateFundTransfer_execute rt parameters
                         (snd (initiateFundTransfer_execute rt parameters s)))) = accountData s
   \<and> map (\<lambda>(k, a). balance a)
          (accountData (snd (initiateFundTransfer_execute rt parameters s)))
       = map (\<lambda>(k, a). balance a) (accountData s)"
  by (simp add: initiateFundTransfer_accountData)

lemma transfer_staged:
  "initiateFundTransfer_execute example_runtime transfer_arguments page_loaded =
     (Inr (JObject [(''success'', JBool True),
                    (''message'', JString ''I've prepared the transfer for you. Please review and click 'Submit' to complete it.'')]),
      page_loaded\<lparr>fromAccount_input := Some ''Cash Management'',
                  toAccount_input := Some ''Roth IRA'',
                  amount_input := Some ''<fixed>'',
                  portfolio_summary := Some ''none'',
                  transfer_module := Some ''block'',
                  app_console := [ShowTransferModalCalled ''acc_cash_101'' ''acc_roth_456'' (Some (JNumber 250))]\<rparr>)"
  by (simp add: initiateFundTransfer_execute_def transfer_arguments_def page_loaded_def
        lower_names
        find_roth find_cash)
     (simp add: showTransferModal_def mockAccountData_def name_or_NA_def set_if_present_def
        example_runtime_def)

text \<open>A transfer that is staged: the form is filled, the table is the one of the source.\<close>

theorem initiateFundTransfer_keeps_balances_witness:
  "fromAccount_input (snd (initiateFundTransfer_execute example_runtime transfer_arguments page_loaded))
      = Some ''Cash Management''
   \<and> accountData (snd (initiateFundTransfer_execute example_runtime transfer_arguments page_loaded))
      = mockAccountData
   \<and> accountData (snd (initiateFundTransfer_execute example_runtime transfer_arguments
         (snd (initiateFundTransfer_execute example_runtime transfer_arguments page_loaded))))
      = mockAccountData"
  using initiateFundTransfer_keeps_balances [of example_runtime transfer_arguments page_loaded]
  by (simp add: transfer_staged) (simp add: page_loaded_def)

text \<open>
  C8 (amended). When the two account names are strings and the fuzzy match fails for the
  source name, the destination name or both, \<^verbatim>\<open>initiateFundTransfer.execute\<close> does not
  call \<^verbatim>\<open>App.showTransferModal\<close>: the application state, and with it the console
  line that the modal writes on entry, is as before. It returns a failure whose message
  starts with \<^verbatim>\<open>Account(s) not found.\<close> and goes on with both names as given, each
  followed by the mark for found or not found; only when the amount cannot be converted
  to a string does it raise a TypeError instead, at the log line 116, before the search.
  Lower case is the result of \<^verbatim>\<open>toLowerCase\<close>, as in the balance lookup.
\<close>

theorem initiateFundTransfer_not_found:
  assumes "get_property parameters ''fromAccount'' = Inr (Some (JString fromName))"
    and "get_property parameters ''toAccount'' = Inr (Some (JString toName))"
    and "get_property parameters ''amount'' = Inr amount"
    and "\<not> (\<exists>kv \<in> set (accountData s).
              sublist (toLowerCase rt fromName)
                      (toLowerCase rt (acc_name (snd kv))))
         \<or> \<not> (\<exists>kv \<in> set (accountData s).
              sublist (toLowerCase rt toName)
                      (toLowerCase rt (acc_name (snd kv))))"
  shows "(interpolates amount \<longrightarrow>
          initiateFundTransfer_execute rt parameters s =
           (Inr (JObject
              [(''success'', JBool False),
               (''message'',
                JString (''Account(s) not found.'' @ '' From: '' @ fromName @ '' ''
                   @ check_mark (\<exists>kv \<in> set (accountData s).
                        sublist (toLowerCase rt fromName)
                                (toLowerCase rt (acc_name (snd kv))))
                   @ '', To: '' @ toName @ '' ''
                   @ check_mark (\<exists>kv \<in> set (accountData s).
                        sublist (toLowerCase rt toName)
                                (toLowerCase rt (acc_name (snd kv))))))]),
            s))
         \<and> (\<not> interpolates amount \<longrightarrow>
              initiateFundTransfer_execute rt parameters s = (Inl TypeError, s))
         \<and> snd (initiateFundTransfer_execute rt parameters s) = s
         \<and> app_console (snd (initiateFundTransfer_execute rt parameters s)) = app_console s"
proof -
  have found: "(find (name_matches rt l) (Object_values (accountData s)) \<noteq> None)
       = (\<exists>kv \<in> set (accountData s). sublist l (toLowerCase rt (acc_name (snd kv))))"
    for l
    by (auto simp: find_None_iff Object_values_def name_matches_sublist)
  have miss: "find (name_matches rt (toLowerCase rt fromName))
                (Object_values (accountData s)) = None
     \<or> find (name_matches rt (toLowerCase rt toName))
                (Object_values (accountData s)) = None"
    using assms(4) found by blast
  have raise: "\<not> interpolates amount \<Longrightarrow>
      initiateFundTransfer_execute rt parameters s = (Inl TypeError, s)"
    using assms(1,2,3) by (simp add: initiateFundTransfer_execute_def)
  have eq: "interpolates amount \<Longrightarrow> initiateFundTransfer_execute rt parameters s =
           (Inr (JObject
              [(''success'', JBool False),
               (''message'',
                JString (''Account(s) not found.'' @ '' From: '' @ fromName @ '' ''
                   @ check_mark (find (name_matches rt (toLowerCase rt fromName))
                                   (Object_values (accountData s)) \<noteq> None)
                   @ '', To: '' @ toName @ '' ''
                   @ check_mark (find (name_matches rt (toLowerCase rt toName))
                                   (Object_values (accountData s)) \<noteq> None)))]),
            s)"
    using assms(1,2,3) miss unfolding initiateFundTransfer_execute_def Let_def
    by (auto split: option.splits)
  have same: "snd (initiateFundTransfer_execute rt parameters s) = s"
    using raise eq by (cases "interpolates amount") simp_all
  show ?thesis unfolding found [symmetric] using eq raise same by simp
qed

lemma savings_in_no_name:
  "\<not> (\<exists>kv \<in> set (accountData page_loaded).
         sublist (toLowerCase example_runtime ''Savings'')
                 (toLowerCase example_runtime (acc_name (snd kv))))"
  using find_savings
  by (simp add: page_loaded_def find_None_iff Object_values_def name_matches_sublist
        lower_names)

lemma roth_in_a_name:
  "\<exists>kv \<in> set (accountData page_loaded).
         sublist (toLowerCase example_runtime ''Roth IRA'')
                 (toLowerCase example_runtime (acc_name (snd kv)))"
  by (simp add: page_loaded_def mockAccountData_def
        lower_names)

text \<open>The amended statement at a transfer from an account that does not exist, with an
  amount that is a number and with one that cannot be converted to a string.\<close>

theorem initiateFundTransfer_not_found_witness:
  "get_property transfer_unknown_source ''fromAccount'' = Inr (Some (JString ''Savings''))
   \<and> get_property transfer_unknown_source ''toAccount'' = Inr (Some (JString ''Roth IRA''))
   \<and> get_property transfer_unknown_source ''amount'' = Inr (Some (JNumber 250))
   \<and> interpolates (Some (JNumber 250))
   \<and> initiateFundTransfer_execute example_runtime transfer_unknown_source page_loaded =
        (Inr (JObject
           [(''success'', JBool False),
            (''message'',
             JString (''Account(s) not found. From: Savings '' @ [CHR 0xE2, CHR 0x9C, CHR 0x97]
                      @ '', To: Roth IRA '' @ [CHR 0xE2, CHR 0x9C, CHR 0x93]))]),
         page_loaded)
   \<and> get_property transfer_unprintable_amount ''amount''
        = Inr (Some (JObject [(''toString'', JNull)]))
   \<and> \<not> interpolates (Some (JObject [(''toString'', JNull)]))
   \<and> initiateFundTransfer_execute example_runtime transfer_unprintable_amount page_loaded
        = (Inl TypeError, page_loaded)"
proof -
  have p1: "get_property transfer_unknown_source ''fromAccount'' = Inr (Some (JString ''Savings''))"
    by (simp add: transfer_unknown_source_def)
  have p2: "get_property transfer_unknown_source ''toAccount'' = Inr (Some (JString ''Roth IRA''))"
    by (simp add: transfer_unknown_source_def)
  have p3: "get_property transfer_unknown_source ''amount'' = Inr (Some (JNumber 250))"
    by (simp add: transfer_unknown_source_def)
  have q1: "get_property transfer_unprintable_amount ''fromAccount'' = Inr (Some (JString ''Savings''))"
    by (simp add: transfer_unprintable_amount_def)
  have q2: "get_property transfer_unprintable_amount ''toAccount'' = Inr (Some (JString ''Roth IRA''))"
    by (simp add: transfer_unprintable_amount_def)
  have q3: "get_property transfer_unprintable_amount ''amount''
              = Inr (Some (JObject [(''toString'', JNull)]))"
    by (simp add: transfer_unprintable_amount_def)
  have i1: "interpolates (Some (JNumber 250))" by simp
  have i2: "\<not> interpolates (Some (JObject [(''toString'', JNull)]))" by simp
  have miss: "\<not> (\<exists>kv \<in> set (accountData page_loaded).
              sublist (toLowerCase example_runtime ''Savings'')
                      (toLowerCase example_runtime (acc_name (snd kv))))
         \<or> \<not> (\<exists>kv \<in> set (accountData page_loaded).
              sublist (toLowerCase example_runtime ''Roth IRA'')
                      (toLowerCase example_runtime (acc_name (snd kv))))"
    using savings_in_no_name by blast
  from initiateFundTransfer_not_found [OF p1 p2 p3 miss] i1
  have r1: "initiateFundTransfer_execute example_runtime transfer_unknown_source page_loaded =
        (Inr (JObject
           [(''success'', JBool False),
            (''message'',
             JString (''Account(s) not found. From: Savings '' @ [CHR 0xE2, CHR 0x9C, CHR 0x97]
                      @ '', To: Roth IRA '' @ [CHR 0xE2, CHR 0x9C, CHR 0x93]))]),
         page_loaded)"
    using savings_in_no_name roth_in_a_name by (simp add: check_mark_def)
  from initiateFundTransfer_not_found [OF q1 q2 q3 miss] i2
  have r2: "initiateFundTransfer_execute example_runtime transfer_unprintable_amount page_loaded
        = (Inl TypeError, page_loaded)"
    by blast
  show ?thesis using p1 p2 p3 i1 r1 q3 i2 r2 by blast
qed

text \<open>C8 as stated fails: the message is not the bare text \<^verbatim>\<open>Account(s) not found.\<close>,
  and with an amount that cannot be converted to a string nothing is returned at all.\<close>

theorem initiateFundTransfer_not_found_message_counterexample:
  "fst (initiateFundTransfer_execute example_runtime transfer_unknown_source page_loaded) =
     Inr (JObject
        [(''success'', JBool False),
         (''message'',
          JString (''Account(s) not found. From: Savings '' @ [CHR 0xE2, CHR 0x9C, CHR 0x97]
                   @ '', To: Roth IRA '' @ [CHR 0xE2, CHR 0x9C, CHR 0x93]))])
   \<and> fst (initiateFundTransfer_execute example_runtime transfer_unknown_source page_loaded) \<noteq>
     Inr (JObject [(''success'', JBool False), (''message'', JString ''Account(s) not found.'')])
   \<and> fst (initiateFundTransfer_execute example_runtime transfer_unprintable_amount page_loaded)
       = Inl TypeError"
  by (simp add: initiateFundTransfer_execute_def transfer_unknown_source_def page_loaded_def
        transfer_unprintable_amount_def
        lower_names
        find_roth
        find_savings check_mark_def)

section \<open>The registry\<close>

lemma Map_get_fold_set:
  "Map_get (fold (\<lambda>tool m. Map_set m (name tool) tool) batch m0) k =
     (if k \<in> name ` set batch then Some (last (filter (\<lambda>t. name t = k) batch))
      else Map_get m0 k)"
proof (induction batch arbitrary: m0)
  case Nil
  then show ?case by simp
next
  case (Cons t ts)
  show ?case
  proof (cases "k \<in> name ` set ts")
    case True
    then have "filter (\<lambda>t. name t = k) ts \<noteq> []"
      by (auto simp: filter_empty_conv)
    with True Cons show ?thesis by simp
  next
    case False
    then have "filter (\<lambda>t. name t = k) ts = []"
      by (auto simp: filter_empty_conv)
    with False Cons show ?thesis
      by (auto simp: Map_get_def Map_set_def update_conv')
  qed
qed

lemma provideContext_lookup:
  "Map_get (snd (provideContext batch old)) k =
     (if k \<in> name ` set batch then Some (last (filter (\<lambda>t. name t = k) batch)) else None)"
  by (simp add: provideContext_def Map_get_fold_set) (simp add: Map_get_def)

lemma distinct_names_filter:
  assumes "distinct (map name batch)" "t \<in> set batch"
  shows "filter (\<lambda>u. name u = name t) batch = [t]"
  using assms
proof (induction batch)
  case Nil
  then show ?case by simp
next
  case (Cons a as)
  show ?case
  proof (cases "a = t")
    case True
    with Cons.prems have "name t \<notin> name ` set as" by simp
    then have "\<forall>u \<in> set as. name u \<noteq> name t" by (metis imageI)
    then have "filter (\<lambda>u. name u = name t) as = []" by (simp add: filter_empty_conv)
    with True show ?thesis by simp
  next
    case False
    with Cons.prems have "t \<in> set as" "name a \<noteq> name t" by auto
    with Cons show ?thesis by simp
  qed
qed

text \<open>
  C5. After \<^verbatim>\<open>provideContext\<close> with a batch of tools with unique names, looking up the
  name of each tool of the batch yields exactly that tool, and every name that is not in
  the batch is absent, whatever was registered before: a name registered by an earlier
  batch and missing from the new one can no longer be looked up.
\<close>
theorem provideContext_replaces_registry:
  assumes "distinct (map name batch)"
  shows "(\<forall>t \<in> set batch. Map_get (snd (provideContext batch old)) (name t) = Some t)
       \<and> (\<forall>n. n \<notin> name ` set batch \<longrightarrow> Map_get (snd (provideContext batch old)) n = None)
       \<and> (\<forall>earlier older n.
             Map_has (snd (provideContext earlier older)) n \<and> n \<notin> name ` set batch
             \<longrightarrow> \<not> Map_has (snd (provideContext batch (snd (provideContext earlier older)))) n)"
  using assms
  by (auto simp: provideContext_lookup distinct_names_filter Map_has_def Map_get_def [symmetric])

text \<open>The theorem at a batch of two tools that replaces a batch of two.\<close>

theorem provideContext_replaces_registry_witness:
  "distinct (map name [getAccountBalance example_runtime, initiateFundTransfer example_runtime])
   \<and> Map_get (snd (provideContext [getAccountBalance example_runtime, initiateFundTransfer example_runtime]
                  (snd (provideContext [getAccountList, getAccountBalance example_runtime] []))))
        ''initiateFundTransfer'' = Some (initiateFundTransfer example_runtime)
   \<and> Map_has (snd (provideContext [getAccountList, getAccountBalance example_runtime] [])) ''getAccountList''
   \<and> \<not> Map_has (snd (provideContext [getAccountBalance example_runtime, initiateFundTransfer example_runtime]
                   (snd (provideContext [getAccountList, getAccountBalance example_runtime] []))))
          ''getAccountList''"
proof -
  have d: "distinct (map name [getAccountBalance example_runtime, initiateFundTransfer example_runtime])"
    by (simp add: getAccountBalance_def initiateFundTransfer_def)
  have n: "name (initiateFundTransfer example_runtime) = ''initiateFundTransfer''"
    by (simp add: initiateFundTransfer_def)
  have h: "Map_has (snd (provideContext [getAccountList, getAccountBalance example_runtime] [])) ''getAccountList''"
    by (simp add: provideContext_def Map_has_def Map_set_def getAccountList_def
          getAccountBalance_def)
  have a: "''getAccountList'' \<notin> name ` set [getAccountBalance example_runtime, initiateFundTransfer example_runtime]"
    by (simp add: getAccountBalance_def initiateFundTransfer_def)
  from provideContext_replaces_registry [OF d, of "snd (provideContext [getAccountList, getAccountBalance example_runtime] [])"]
  show ?thesis using d n h a by (metis list.set_intros(1,2))
qed

text \<open>
  C9 (amended). \<^verbatim>\<open>provideContext\<close> reports nothing to its caller, for no batch: it
  returns normally. Of the tools of a batch that share a name, the last one is the one
  found under that name afterwards; the earlier ones are overwritten without notice.
\<close>

theorem provideContext_last_wins:
  "fst (provideContext batch old) = Inr ()
   \<and> (\<forall>t \<in> set batch.
        Map_get (snd (provideContext batch old)) (name t)
          = Some (last (filter (\<lambda>u. name u = name t) batch)))"
  by (simp add: provideContext_lookup) (simp add: provideContext_def)

text \<open>The amended statement at a batch with a repeated name.\<close>

theorem provideContext_last_wins_witness:
  "\<not> distinct (map name duplicate_batch)
   \<and> fst (provideContext duplicate_batch []) = Inr ()
   \<and> Map_get (snd (provideContext duplicate_batch [])) ''getAccountBalance''
       = Some ((getAccountBalance example_runtime)\<lparr>description := ''A second tool under the same name.''\<rparr>)"
proof -
  have m: "(getAccountBalance example_runtime)\<lparr>description := ''A second tool under the same name.''\<rparr>
             \<in> set duplicate_batch"
    by (simp add: duplicate_batch_def)
  from provideContext_last_wins [of duplicate_batch "[]"] m
  have "Map_get (snd (provideContext duplicate_batch []))
          (name ((getAccountBalance example_runtime)\<lparr>description := ''A second tool under the same name.''\<rparr>))
        = Some (last (filter (\<lambda>u. name u = name ((getAccountBalance example_runtime)\<lparr>description := ''A second tool under the same name.''\<rparr>)) duplicate_batch))"
    by blast
  then show ?thesis
    using provideContext_last_wins [of duplicate_batch "[]"]
    by (simp add: duplicate_batch_def getAccountBalance_def)
qed

text \<open>C9 as stated fails: a batch with a repeated name is accepted without an error, and
  the second tool has taken the place of the first.\<close>

theorem provideContext_duplicate_counterexample:
  "\<not> distinct (map name duplicate_batch)
   \<and> provideContext duplicate_batch [] =
       (Inr (), [(''getAccountBalance'',
                  (getAccountBalance example_runtime)\<lparr>description := ''A second tool under the same name.''\<rparr>)])"
  by (simp add: duplicate_batch_def provideContext_def Map_set_def getAccountBalance_def)

section \<open>Invoking a tool\<close>

lemma Map_get_None_iff: "(Map_get m k = None) = (k \<notin> fst ` set m)"
  by (simp add: Map_get_def map_of_eq_None_iff)

text \<open>
  C3. For a tool name that is not in the registry, \<^verbatim>\<open>invokeTool\<close> returns the failure
  result \<^verbatim>\<open>{ success: false, message: 'Unknown action.' }\<close> and calls no executor: the
  application state and the record of calls are as before.
\<close>

theorem invokeTool_unknown_tool:
  assumes "toolName \<notin> fst ` set tools"
  shows "invokeTool tools toolName parameters w =
           (Inr (JObject [(''success'', JBool False), (''message'', JString ''Unknown action.'')]), w)"
  using assms
  by (simp add: invokeTool_def Map_get_None_iff [symmetric] unknown_action_def)

lemma example_tools_eq:
  "example_tools = [(''getAccountBalance'', getAccountBalance example_runtime),
                    (''initiateFundTransfer'', initiateFundTransfer example_runtime)]"
  by (simp add: example_tools_def provideContext_def Map_set_def getAccountBalance_def
        initiateFundTransfer_def)

text \<open>The theorem at a name that no registered tool carries.\<close>

theorem invokeTool_unknown_tool_witness:
  "''closeAccount'' \<notin> fst ` set example_tools
   \<and> invokeTool example_tools ''closeAccount'' (JObject []) start =
        (Inr (JObject [(''success'', JBool False), (''message'', JString ''Unknown action.'')]),
         start)"
proof -
  have a: "''closeAccount'' \<notin> fst ` set example_tools"
    by (simp add: example_tools_eq)
  from invokeTool_unknown_tool [OF a] a show ?thesis by blast
qed

lemma try_catch_Inr:
  "(\<And>e s. \<exists>r. fst (handler e s) = Inr r) \<Longrightarrow> \<exists>r. fst (try_catch m handler) = Inr r"
  by (cases m) (auto simp: try_catch_def split: sum.splits)

lemma processUserPromptWithLLM_returns:
  "\<exists>r. fst (processUserPromptWithLLM rt fetch fmt cfg tools prompt w) = Inr r"
  unfolding processUserPromptWithLLM_def
  by (rule try_catch_Inr) simp

text \<open>
  C4. When the executor of a registered tool raises, \<^verbatim>\<open>invokeTool\<close> catches the
  exception and returns \<^verbatim>\<open>{ success: false, message: 'An internal error occurred.' }\<close>;
  no exception leaves \<^verbatim>\<open>invokeTool\<close>, and none leaves
  \<^verbatim>\<open>processUserPromptWithLLM\<close>, which always returns a response.
\<close>

theorem invokeTool_catches_executor_error:
  assumes "Map_get tools toolName = Some tool"
    and "fst (execute tool parameters (app w)) = Inl e"
  shows "fst (invokeTool tools toolName parameters w) =
           Inr (JObject [(''success'', JBool False),
                         (''message'', JString ''An internal error occurred.'')])
         \<and> (\<exists>r. fst (processUserPromptWithLLM rt fetch fmt cfg tools prompt w0) = Inr r)"
proof
  obtain x a' where ex: "execute tool parameters (app w) = (x, a')"
    by (cases "execute tool parameters (app w)")
  with assms(2) have "x = Inl e" by simp
  with ex assms(1)
  show "fst (invokeTool tools toolName parameters w) =
           Inr (JObject [(''success'', JBool False),
                         (''message'', JString ''An internal error occurred.'')])"
    by (simp add: invokeTool_def try_catch_def internal_error_def)
next
  show "\<exists>r. fst (processUserPromptWithLLM rt fetch fmt cfg tools prompt w0) = Inr r"
    by (rule processUserPromptWithLLM_returns)
qed

lemma transfer_text_amount_raises:
  "fst (initiateFundTransfer_execute example_runtime transfer_text_amount page_loaded) = Inl TypeError"
  by (simp add: initiateFundTransfer_execute_def transfer_text_amount_def page_loaded_def
        lower_names
        find_roth find_cash)
     (simp add: showTransferModal_def)

text \<open>The theorem at the transfer tool, called with an amount that is a string: the
  modal raises at \<^verbatim>\<open>amount.toFixed(2)\<close>.\<close>

theorem invokeTool_catches_executor_error_witness:
  "Map_get example_tools ''initiateFundTransfer'' = Some (initiateFundTransfer example_runtime)
   \<and> fst (execute (initiateFundTransfer example_runtime) transfer_text_amount (app start))
       = Inl TypeError
   \<and> fst (invokeTool example_tools ''initiateFundTransfer'' transfer_text_amount start) =
       Inr (JObject [(''success'', JBool False),
                     (''message'', JString ''An internal error occurred.'')])"
proof -
  have g: "Map_get example_tools ''initiateFundTransfer'' = Some (initiateFundTransfer example_runtime)"
    by (simp add: example_tools_eq Map_get_def)
  have r: "fst (execute (initiateFundTransfer example_runtime) transfer_text_amount (app start))
       = Inl TypeError"
    using transfer_text_amount_raises by (simp add: initiateFundTransfer_def start_def)
  from invokeTool_catches_executor_error [OF g r] g r show ?thesis by blast
qed

section \<open>The decision of the gateway\<close>

lemma try_catch_snd:
  "(\<And>e s. snd (handler e s) = s) \<Longrightarrow> snd (try_catch m handler) = snd m"
  by (cases m) (auto simp: try_catch_def split: sum.splits)

lemma try_catch_pass: "fst m = Inr a \<Longrightarrow> try_catch m handler = m"
  by (cases m) (simp add: try_catch_def)

lemma Config_usable:
  "\<not> enableMockMode Config" "apiKey Config \<noteq> []" "provider Config = ''openai''"
  by (simp_all add: Config_def)





section \<open>The calls made while one prompt is processed\<close>

lemma processOpenAIResponse_frame:
  "events (snd (processOpenAIResponse rt r w)) = events w"
  by (simp add: processOpenAIResponse_def Let_def split: option.splits list.splits)

lemma callOpenAI_events:
  "\<exists>u k r. events (snd (callOpenAI rt fetch cfg um ts key w)) = events w @ [Fetch u k r]
      \<and> req_tools r = (if ts = [] then None else Some (formatToolsForOpenAI ts))
      \<and> tool_choice r = (if ts = [] then None else Some ''auto'')"
  by (simp add: callOpenAI_def Let_def processOpenAIResponse_frame formatToolsForOpenAI_def
        Map_values_def split: http_result.splits)

lemma generateResponse_returns:
  "\<exists>d. fst (generateResponse rt fetch cfg um ts w) = Inr d"
  unfolding generateResponse_def by (rule try_catch_Inr) simp

lemma generateResponse_events:
  "events (snd (generateResponse rt fetch cfg um ts w)) = events w
   \<or> (\<exists>u k r. events (snd (generateResponse rt fetch cfg um ts w)) = events w @ [Fetch u k r])"
proof -
  have "snd (generateResponse rt fetch cfg um ts w) =
        snd (if enableMockMode cfg then (Inr (mockResponse um), w)
        else
          (case getApiKey cfg of
             Inl e \<Rightarrow> (Inl e, w)
           | Inr key \<Rightarrow>
               (let w1 = w\<lparr>conversationHistory := conversationHistory w @ [UserMessage um]\<rparr>
                in if provider cfg = ''openai'' then
                     callOpenAI rt fetch cfg um ts key w1
                   else if provider cfg = ''anthropic'' then callAnthropic w1
                   else (Inl (Error (''Unsupported LLM provider: '' @ provider cfg)), w1))))"
    unfolding generateResponse_def by (rule try_catch_snd) simp
  moreover have "\<exists>u k r. events (snd (callOpenAI rt fetch cfg um ts key
           (w\<lparr>conversationHistory := conversationHistory w @ [UserMessage um]\<rparr>)))
         = events w @ [Fetch u k r]" for key
    using callOpenAI_events [of rt fetch cfg um ts key
           "w\<lparr>conversationHistory := conversationHistory w @ [UserMessage um]\<rparr>"]
    by auto
  ultimately show ?thesis
    by (auto simp: Let_def callAnthropic_def split: sum.splits)
qed

lemma invokeTool_returns:
  "\<exists>r. fst (invokeTool ts n p w) = Inr r"
proof (cases "Map_get ts n")
  case None
  then show ?thesis by (simp add: invokeTool_def)
next
  case (Some t)
  have "\<exists>r. fst (try_catch
            (let w1 = w\<lparr>events := events w @ [ExecuteTool n p]\<rparr>;
                 (result, app') = execute t p (app w1)
             in (result, w1\<lparr>app := app'\<rparr>))
            (\<lambda>error w'. (Inr internal_error, w'))) = Inr r"
    by (rule try_catch_Inr) simp
  with Some show ?thesis by (simp add: invokeTool_def)
qed

lemma invokeTool_events:
  "events (snd (invokeTool ts n p w)) = events w
   \<or> events (snd (invokeTool ts n p w)) = events w @ [ExecuteTool n p]"
proof (cases "Map_get ts n")
  case None
  then show ?thesis by (simp add: invokeTool_def)
next
  case (Some t)
  have "snd (try_catch
            (let w1 = w\<lparr>events := events w @ [ExecuteTool n p]\<rparr>;
                 (result, app') = execute t p (app w1)
             in (result, w1\<lparr>app := app'\<rparr>))
            (\<lambda>error w'. (Inr internal_error, w')))
        = snd (let w1 = w\<lparr>events := events w @ [ExecuteTool n p]\<rparr>;
                 (result, app') = execute t p (app w1)
             in (result, w1\<lparr>app := app'\<rparr>))"
    by (rule try_catch_snd) simp
  with Some show ?thesis
    by (simp add: invokeTool_def Let_def split: prod.splits)
qed

lemma handleFunctionResult_events:
  "events (snd (handleFunctionResult rt fetch cfg i f res w)) = events w
   \<or> (\<exists>u k r. events (snd (handleFunctionResult rt fetch cfg i f res w)) = events w @ [Fetch u k r]
         \<and> req_tools r = None \<and> tool_choice r = None)"
proof (cases "getApiKey cfg")
  case (Inl e)
  then show ?thesis by (simp add: handleFunctionResult_def Let_def)
next
  case (Inr key)
  from callOpenAI_events [of rt fetch cfg "[]" "[]" key
      "w\<lparr>conversationHistory := conversationHistory w @ [ToolMessage (JSON_stringify rt res) i]\<rparr>"]
  show ?thesis using Inr by (simp add: handleFunctionResult_def Let_def)
qed


lemma processUserPromptWithLLM_events:
  "\<exists>evs. events (snd (processUserPromptWithLLM rt fetch fmt cfg ts prompt w)) = events w @ evs
      \<and> length (filter is_ExecuteTool evs) \<le> 1 \<and> length (filter is_Fetch evs) \<le> 2"
proof -
  let ?body = "bind_js (generateResponse rt fetch cfg prompt ts w) (\<lambda>llmResponse w1.
          case llmResponse of
            Function_call functionName arguments toolCallId \<Rightarrow>
              bind_js (invokeTool ts functionName arguments w1) (\<lambda>functionResult w2.
                if toolCallId \<noteq> [] then
                  bind_js (handleFunctionResult rt fetch cfg toolCallId functionName functionResult w2)
                    (\<lambda>finalResponse w3. (Inr (Final finalResponse), w3))
                else
                  (case fmt functionName functionResult of
                     Inl e \<Rightarrow> (Inl e, w2)
                   | Inr r \<Rightarrow> (Inr (Formatted r), w2)))
          | Text message \<Rightarrow> (Inr (Message message), w1)
          | ErrorResponse message \<Rightarrow> (Inr (Message (Some message)), w1))"
  have s: "snd (processUserPromptWithLLM rt fetch fmt cfg ts prompt w) = snd ?body"
    unfolding processUserPromptWithLLM_def by (rule try_catch_snd) simp
  obtain d w1 where g: "generateResponse rt fetch cfg prompt ts w = (Inr d, w1)"
    using generateResponse_returns [of rt fetch cfg prompt ts w]
    by (cases "generateResponse rt fetch cfg prompt ts w") auto
  obtain e1 where e1: "events w1 = events w @ e1" "filter is_ExecuteTool e1 = []"
      "length (filter is_Fetch e1) \<le> 1"
    using generateResponse_events [of rt fetch cfg prompt ts w] g by auto
  show ?thesis
  proof (cases d)
    case (Text m)
    with g s e1 show ?thesis by (simp add: bind_js_def)
  next
    case (ErrorResponse m)
    with g s e1 show ?thesis by (simp add: bind_js_def)
  next
    case (Function_call f a i)
    obtain res w2 where inv: "invokeTool ts f a w1 = (Inr res, w2)"
      using invokeTool_returns [of ts f a w1] by (cases "invokeTool ts f a w1") auto
    obtain e2 where e2: "events w2 = events w1 @ e2" "length (filter is_ExecuteTool e2) \<le> 1"
      "filter is_Fetch e2 = []"
      using invokeTool_events [of ts f a w1] inv by auto
    show ?thesis
    proof (cases "i = []")
      case True
      with g s Function_call inv e1 e2 show ?thesis
        by (auto simp: bind_js_def split: sum.splits)
    next
      case False
      obtain x w3 where h: "handleFunctionResult rt fetch cfg i f res w2 = (x, w3)"
        by (cases "handleFunctionResult rt fetch cfg i f res w2")
      obtain e3 where e3: "events w3 = events w2 @ e3" "filter is_ExecuteTool e3 = []"
        "length (filter is_Fetch e3) \<le> 1"
        using handleFunctionResult_events [of rt fetch cfg i f res w2] h by auto
      from g s Function_call inv False h
      have "snd (processUserPromptWithLLM rt fetch fmt cfg ts prompt w) = w3"
        by (cases x) (simp_all add: bind_js_def)
      with e1 e2 e3 show ?thesis by simp
    qed
  qed
qed

lemma follow_up_is_final:
  assumes "generateResponse rt fetch cfg prompt ts w = (Inr (Function_call f a i), w1)"
    and "i \<noteq> []"
    and "invokeTool ts f a w1 = (Inr res, w2)"
    and "handleFunctionResult rt fetch cfg i f res w2 = (Inr d, w3)"
  shows "processUserPromptWithLLM rt fetch fmt cfg ts prompt w = (Inr (Final d), w3)"
  using assms by (simp add: processUserPromptWithLLM_def bind_js_def try_catch_def)

lemma handleFunctionResult_no_execution:
  "filter is_ExecuteTool (events (snd (handleFunctionResult rt fetch cfg i f res w)))
     = filter is_ExecuteTool (events w)"
  using handleFunctionResult_events [of rt fetch cfg i f res w] by auto

text \<open>
  C10. While one prompt is processed, \<^verbatim>\<open>tool.execute\<close> is called at most once. The
  request that \<^verbatim>\<open>handleFunctionResult\<close> sends is built from an empty tool set: it has
  neither \<^verbatim>\<open>tools\<close> nor \<^verbatim>\<open>tool_choice\<close>. When the reply to it is a tool call all
  the same, \<^verbatim>\<open>processUserPromptWithLLM\<close> returns that function-call response as its
  result and executes nothing for it.
\<close>

theorem one_tool_execution_per_prompt:
  "(\<exists>evs. events (snd (processUserPromptWithLLM rt fetch fmt cfg ts prompt w)) = events w @ evs
        \<and> length (filter is_ExecuteTool evs) \<le> 1)
   \<and> (events (snd (handleFunctionResult rt fetch cfg toolCallId functionName functionResult w0))
         = events w0
       \<or> (\<exists>u k r. events (snd (handleFunctionResult rt fetch cfg toolCallId functionName
                                  functionResult w0)) = events w0 @ [Fetch u k r]
             \<and> req_tools r = None \<and> tool_choice r = None))
   \<and> (\<forall>f a i w1 res w2 f' a' i' w3.
         generateResponse rt fetch cfg prompt ts w = (Inr (Function_call f a i), w1)
         \<and> i \<noteq> []
         \<and> invokeTool ts f a w1 = (Inr res, w2)
         \<and> handleFunctionResult rt fetch cfg i f res w2 = (Inr (Function_call f' a' i'), w3)
         \<longrightarrow> processUserPromptWithLLM rt fetch fmt cfg ts prompt w
               = (Inr (Final (Function_call f' a' i')), w3)
             \<and> filter is_ExecuteTool (events w3) = filter is_ExecuteTool (events w2))"
proof (intro conjI allI impI)
  show "\<exists>evs. events (snd (processUserPromptWithLLM rt fetch fmt cfg ts prompt w)) = events w @ evs
        \<and> length (filter is_ExecuteTool evs) \<le> 1"
    using processUserPromptWithLLM_events [of rt fetch fmt cfg ts prompt w] by blast
next
  show "events (snd (handleFunctionResult rt fetch cfg toolCallId functionName functionResult w0))
         = events w0
       \<or> (\<exists>u k r. events (snd (handleFunctionResult rt fetch cfg toolCallId functionName
                                  functionResult w0)) = events w0 @ [Fetch u k r]
             \<and> req_tools r = None \<and> tool_choice r = None)"
    by (rule handleFunctionResult_events)
next
  fix f a i w1 res w2 f' a' i' w3
  assume h: "generateResponse rt fetch cfg prompt ts w = (Inr (Function_call f a i), w1)
         \<and> i \<noteq> []
         \<and> invokeTool ts f a w1 = (Inr res, w2)
         \<and> handleFunctionResult rt fetch cfg i f res w2 = (Inr (Function_call f' a' i'), w3)"
  then show "processUserPromptWithLLM rt fetch fmt cfg ts prompt w
               = (Inr (Final (Function_call f' a' i')), w3)"
    by (intro follow_up_is_final [of rt fetch cfg prompt ts w f a i w1 res w2]) simp_all
  from h handleFunctionResult_no_execution [of rt fetch cfg i f res w2]
  show "filter is_ExecuteTool (events w3) = filter is_ExecuteTool (events w2)"
    by simp
qed

section \<open>A provider that always asks for a tool\<close>

lemma callOpenAI_always_tool_call:
  assumes "always_tool_call rt fetch"
  shows "\<exists>req r m ms tc tcs a.
           fetch (length (filter is_Fetch (events w))) req = HttpOk r
           \<and> choices r = m # ms \<and> tool_calls m = Some (tc # tcs)
           \<and> JSON_parse rt (function_arguments tc) = Some a \<and> call_id tc \<noteq> []
           \<and> req_tools req = (if ts = [] then None else Some (formatToolsForOpenAI ts))
           \<and> messages req =
                SystemMessage (system_content (map fn_name (formatToolsForOpenAI ts)))
                  # conversationHistory w
           \<and> callOpenAI rt fetch cfg um ts key w =
               (Inr (Function_call (function_name tc) a (call_id tc)),
                w\<lparr>events := events w @ [Fetch (baseUrl cfg @ ''/chat/completions'') key req],
                  conversationHistory := conversationHistory w @ [AssistantMessage m]\<rparr>)"
proof -
  define req where "req =
            \<lparr>req_model = model cfg,
             messages = SystemMessage (system_content (map fn_name (formatToolsForOpenAI ts)))
                          # conversationHistory w,
             req_tools = (if length (formatToolsForOpenAI ts) > 0
                          then Some (formatToolsForOpenAI ts) else None),
             tool_choice = (if length (formatToolsForOpenAI ts) > 0 then Some ''auto'' else None),
             max_tokens = maxTokens cfg,
             req_temperature = temperature cfg\<rparr>"
  define n where "n = length (filter is_Fetch (events w))"
  from assms have "case fetch n req of
          Raises e \<Rightarrow> False
        | HttpOk r \<Rightarrow>
            (case choices r of
               [] \<Rightarrow> False
             | m # ms \<Rightarrow>
                 (case tool_calls m of
                    Some (tc # tcs) \<Rightarrow>
                      JSON_parse rt (function_arguments tc) \<noteq> None \<and> call_id tc \<noteq> []
                  | _ \<Rightarrow> False))"
    unfolding always_tool_call_def by blast
  then obtain r where r1: "fetch n req = HttpOk r"
    and c1: "case choices r of
               [] \<Rightarrow> False
             | m # ms \<Rightarrow>
                 (case tool_calls m of
                    Some (tc # tcs) \<Rightarrow>
                      JSON_parse rt (function_arguments tc) \<noteq> None \<and> call_id tc \<noteq> []
                  | _ \<Rightarrow> False)"
    by (cases "fetch n req") auto
  then obtain m ms where r2: "choices r = m # ms"
    and c2: "case tool_calls m of
                    Some (tc # tcs) \<Rightarrow>
                      JSON_parse rt (function_arguments tc) \<noteq> None \<and> call_id tc \<noteq> []
                  | _ \<Rightarrow> False"
    by (cases "choices r") auto
  then obtain l where l: "tool_calls m = Some l"
    by (cases "tool_calls m") auto
  with c2 obtain tc tcs where r3: "l = tc # tcs"
    and c3: "JSON_parse rt (function_arguments tc) \<noteq> None \<and> call_id tc \<noteq> []"
    by (cases l) auto
  then obtain a where r4: "JSON_parse rt (function_arguments tc) = Some a"
    by auto
  have t: "req_tools req = (if ts = [] then None else Some (formatToolsForOpenAI ts))"
    by (simp add: req_def formatToolsForOpenAI_def Map_values_def)
  have ms: "messages req =
                SystemMessage (system_content (map fn_name (formatToolsForOpenAI ts)))
                  # conversationHistory w"
    by (simp add: req_def)
  have "callOpenAI rt fetch cfg um ts key w =
               (Inr (Function_call (function_name tc) a (call_id tc)),
                w\<lparr>events := events w @ [Fetch (baseUrl cfg @ ''/chat/completions'') key req],
                  conversationHistory := conversationHistory w @ [AssistantMessage m]\<rparr>)"
    using r1 r2 l r3 r4
    unfolding callOpenAI_def Let_def req_def [symmetric] n_def [symmetric]
    by (simp add: processOpenAIResponse_def Let_def)
  with r1 r2 l r3 r4 c3 t ms show ?thesis
    unfolding n_def by blast
qed

lemma invokeTool_exact:
  "\<exists>res app'.
     invokeTool ts f a w =
       (Inr res,
        w\<lparr>events := events w @ (if Map_has ts f then [ExecuteTool f a] else []), app := app'\<rparr>)"
proof (cases "Map_get ts f")
  case None
  then have "\<not> Map_has ts f" by (simp add: Map_has_def Map_get_def)
  with None have "invokeTool ts f a w =
       (Inr unknown_action,
        w\<lparr>events := events w @ (if Map_has ts f then [ExecuteTool f a] else []), app := app w\<rparr>)"
    by (simp add: invokeTool_def)
  then show ?thesis by blast
next
  case (Some t)
  then have h: "Map_has ts f" by (simp add: Map_has_def Map_get_def)
  obtain x app' where ex:
    "execute t a (app (w\<lparr>events := events w @ [ExecuteTool f a]\<rparr>)) = (x, app')"
    by (cases "execute t a (app (w\<lparr>events := events w @ [ExecuteTool f a]\<rparr>))")
  have "\<exists>res. invokeTool ts f a w =
       (Inr res, w\<lparr>events := events w @ [ExecuteTool f a], app := app'\<rparr>)"
    using Some ex by (cases x) (simp_all add: invokeTool_def Let_def try_catch_def)
  with h show ?thesis by auto
qed

lemma always_tool_call_outcome:
  assumes "always_tool_call rt fetch"
    and "\<not> enableMockMode cfg" and "apiKey cfg \<noteq> []" and "provider cfg = ''openai''"
  shows "\<exists>req1 r1 m1 ms1 tc1 tcs1 a1 req2 r2 m2 ms2 tc2 tcs2 a2 w'.
           fetch (length (filter is_Fetch (events w))) req1 = HttpOk r1
           \<and> choices r1 = m1 # ms1 \<and> tool_calls m1 = Some (tc1 # tcs1)
           \<and> JSON_parse rt (function_arguments tc1) = Some a1
           \<and> fetch (Suc (length (filter is_Fetch (events w)))) req2 = HttpOk r2
           \<and> choices r2 = m2 # ms2 \<and> tool_calls m2 = Some (tc2 # tcs2)
           \<and> JSON_parse rt (function_arguments tc2) = Some a2
           \<and> processUserPromptWithLLM rt fetch fmt cfg ts prompt w
               = (Inr (Final (Function_call (function_name tc2) a2 (call_id tc2))), w')
           \<and> events w' =
               events w @ [Fetch (baseUrl cfg @ ''/chat/completions'') (apiKey cfg) req1]
                 @ (if Map_has ts (function_name tc1)
                    then [ExecuteTool (function_name tc1) a1] else [])
                 @ [Fetch (baseUrl cfg @ ''/chat/completions'') (apiKey cfg) req2]
           \<and> req_tools req2 = None"
proof -
  have key: "getApiKey cfg = Inr (apiKey cfg)"
    using assms(3) by (simp add: getApiKey_def)
  let ?url = "baseUrl cfg @ ''/chat/completions''"
  let ?w0 = "w\<lparr>conversationHistory := conversationHistory w @ [UserMessage prompt]\<rparr>"
  obtain req1 r1 m1 ms1 tc1 tcs1 a1 where
    f1: "fetch (length (filter is_Fetch (events ?w0))) req1 = HttpOk r1"
        "choices r1 = m1 # ms1" "tool_calls m1 = Some (tc1 # tcs1)"
        "JSON_parse rt (function_arguments tc1) = Some a1" "call_id tc1 \<noteq> []"
    and g: "callOpenAI rt fetch cfg prompt ts (apiKey cfg) ?w0 =
               (Inr (Function_call (function_name tc1) a1 (call_id tc1)),
                ?w0\<lparr>events := events ?w0 @ [Fetch ?url (apiKey cfg) req1],
                  conversationHistory := conversationHistory ?w0 @ [AssistantMessage m1]\<rparr>)"
    using callOpenAI_always_tool_call [OF assms(1), of ?w0 ts cfg prompt "apiKey cfg"]
    by blast
  define w1 where "w1 = ?w0\<lparr>events := events ?w0 @ [Fetch ?url (apiKey cfg) req1],
                  conversationHistory := conversationHistory ?w0 @ [AssistantMessage m1]\<rparr>"
  have g': "generateResponse rt fetch cfg prompt ts w
              = (Inr (Function_call (function_name tc1) a1 (call_id tc1)), w1)"
    using assms(2,4) key g
    by (simp add: generateResponse_def Let_def try_catch_def w1_def)
  have ev1: "events w1 = events w @ [Fetch ?url (apiKey cfg) req1]"
    by (simp add: w1_def)
  obtain res app' where inv:
    "invokeTool ts (function_name tc1) a1 w1 =
       (Inr res,
        w1\<lparr>events := events w1 @ (if Map_has ts (function_name tc1)
                                   then [ExecuteTool (function_name tc1) a1] else []),
           app := app'\<rparr>)"
    using invokeTool_exact [of ts "function_name tc1" a1 w1] by blast
  define w2 where "w2 = w1\<lparr>events := events w1 @ (if Map_has ts (function_name tc1)
                                   then [ExecuteTool (function_name tc1) a1] else []),
           app := app'\<rparr>"
  have ev2: "events w2 = events w @ [Fetch ?url (apiKey cfg) req1]
               @ (if Map_has ts (function_name tc1)
                  then [ExecuteTool (function_name tc1) a1] else [])"
    by (simp add: w2_def ev1)
  let ?w2' = "w2\<lparr>conversationHistory :=
                 conversationHistory w2 @ [ToolMessage (JSON_stringify rt res) (call_id tc1)]\<rparr>"
  have cnt: "length (filter is_Fetch (events ?w2')) = Suc (length (filter is_Fetch (events w)))"
    by (simp add: ev2)
  obtain req2 r2 m2 ms2 tc2 tcs2 a2 where
    f2: "fetch (length (filter is_Fetch (events ?w2'))) req2 = HttpOk r2"
        "choices r2 = m2 # ms2" "tool_calls m2 = Some (tc2 # tcs2)"
        "JSON_parse rt (function_arguments tc2) = Some a2"
    and t2: "req_tools req2 = (if ([] :: registry) = [] then None
                               else Some (formatToolsForOpenAI []))"
    and h: "callOpenAI rt fetch cfg [] [] (apiKey cfg) ?w2' =
               (Inr (Function_call (function_name tc2) a2 (call_id tc2)),
                ?w2'\<lparr>events := events ?w2' @ [Fetch ?url (apiKey cfg) req2],
                  conversationHistory := conversationHistory ?w2' @ [AssistantMessage m2]\<rparr>)"
    using callOpenAI_always_tool_call [OF assms(1), of ?w2' "[]" cfg "[]" "apiKey cfg"]
    by blast
  define w3 where "w3 = ?w2'\<lparr>events := events ?w2' @ [Fetch ?url (apiKey cfg) req2],
                  conversationHistory := conversationHistory ?w2' @ [AssistantMessage m2]\<rparr>"
  have h': "handleFunctionResult rt fetch cfg (call_id tc1) (function_name tc1) res w2
              = (Inr (Function_call (function_name tc2) a2 (call_id tc2)), w3)"
    using key h by (simp add: handleFunctionResult_def Let_def w3_def)
  have p: "processUserPromptWithLLM rt fetch fmt cfg ts prompt w
          = (Inr (Final (Function_call (function_name tc2) a2 (call_id tc2))), w3)"
    using g' f1(5) inv [folded w2_def] h' by (rule follow_up_is_final)
  have ev3: "events w3 = events w @ [Fetch ?url (apiKey cfg) req1]
               @ (if Map_has ts (function_name tc1)
                  then [ExecuteTool (function_name tc1) a1] else [])
               @ [Fetch ?url (apiKey cfg) req2]"
    by (simp add: w3_def ev2)
  have f1': "fetch (length (filter is_Fetch (events w))) req1 = HttpOk r1"
    using f1(1) by simp
  have f2': "fetch (Suc (length (filter is_Fetch (events w)))) req2 = HttpOk r2"
    using f2(1) cnt by simp
  have t2': "req_tools req2 = None" using t2 by simp
  from f1' f1(2,3,4) f2' f2(2,3,4) p ev3 t2' show ?thesis by blast
qed

lemma always_calls_is_always_tool_call: "always_tool_call example_runtime always_calls"
  by (simp add: always_tool_call_def always_calls_def example_runtime_def balance_call_def)

lemma callOpenAI_always_calls:
  "fst (callOpenAI example_runtime always_calls cfg um ts key w)
     = Inr (Function_call ''getAccountBalance'' roth_arguments ''call_1'')"
  by (simp add: callOpenAI_def Let_def always_calls_def processOpenAIResponse_def
        example_runtime_def balance_call_def)

lemma generateResponse_always_calls:
  "fst (generateResponse example_runtime always_calls Config um ts w)
     = Inr (Function_call ''getAccountBalance'' roth_arguments ''call_1'')"
proof -
  have k: "getApiKey Config = Inr (apiKey Config)"
    using Config_usable by (simp add: getApiKey_def)
  have "generateResponse example_runtime always_calls Config um ts w
        = callOpenAI example_runtime always_calls Config um ts (apiKey Config)
            (w\<lparr>conversationHistory := conversationHistory w @ [UserMessage um]\<rparr>)"
    unfolding generateResponse_def using Config_usable k
    by (simp add: Let_def try_catch_pass [OF callOpenAI_always_calls])
  then show ?thesis by (simp add: callOpenAI_always_calls)
qed

lemma handleFunctionResult_always_calls:
  "fst (handleFunctionResult example_runtime always_calls Config i f res w)
     = Inr (Function_call ''getAccountBalance'' roth_arguments ''call_1'')"
  using Config_usable
  by (simp add: handleFunctionResult_def Let_def getApiKey_def callOpenAI_always_calls)

lemma always_calls_run:
  "\<exists>w1 res w2 w3.
     generateResponse example_runtime always_calls Config prompt example_tools start
       = (Inr (Function_call ''getAccountBalance'' roth_arguments ''call_1''), w1)
     \<and> invokeTool example_tools ''getAccountBalance'' roth_arguments w1 = (Inr res, w2)
     \<and> handleFunctionResult example_runtime always_calls Config ''call_1'' ''getAccountBalance''
         res w2
       = (Inr (Function_call ''getAccountBalance'' roth_arguments ''call_1''), w3)"
proof -
  let ?fc = "Function_call ''getAccountBalance'' roth_arguments ''call_1''"
  obtain w1 where g: "generateResponse example_runtime always_calls Config prompt example_tools start
       = (Inr ?fc, w1)"
    using generateResponse_always_calls [of prompt example_tools start]
    by (cases "generateResponse example_runtime always_calls Config prompt example_tools start")
       simp
  obtain res w2 where inv:
    "invokeTool example_tools ''getAccountBalance'' roth_arguments w1 = (Inr res, w2)"
    using invokeTool_returns [of example_tools "''getAccountBalance''" roth_arguments w1]
    by (cases "invokeTool example_tools ''getAccountBalance'' roth_arguments w1") auto
  obtain w3 where h:
    "handleFunctionResult example_runtime always_calls Config ''call_1'' ''getAccountBalance''
         res w2 = (Inr ?fc, w3)"
    using handleFunctionResult_always_calls [of "''call_1''" "''getAccountBalance''" res w2]
    by (cases "handleFunctionResult example_runtime always_calls Config ''call_1''
                 ''getAccountBalance'' res w2") simp
  from g inv h show ?thesis by blast
qed

text \<open>The theorem at the stub that always answers with the same tool call.\<close>

theorem one_tool_execution_per_prompt_witness:
  "\<exists>w1 res w2 w3.
     generateResponse example_runtime always_calls Config ''What is my Roth IRA balance?''
         example_tools start
       = (Inr (Function_call ''getAccountBalance'' roth_arguments ''call_1''), w1)
     \<and> ''call_1'' \<noteq> []
     \<and> invokeTool example_tools ''getAccountBalance'' roth_arguments w1 = (Inr res, w2)
     \<and> handleFunctionResult example_runtime always_calls Config ''call_1'' ''getAccountBalance''
         res w2
       = (Inr (Function_call ''getAccountBalance'' roth_arguments ''call_1''), w3)
     \<and> processUserPromptWithLLM example_runtime always_calls no_format Config example_tools
         ''What is my Roth IRA balance?'' start
       = (Inr (Final (Function_call ''getAccountBalance'' roth_arguments ''call_1'')), w3)
     \<and> filter is_ExecuteTool (events w3) = filter is_ExecuteTool (events w2)"
proof -
  obtain w1 res w2 w3 where
    g: "generateResponse example_runtime always_calls Config ''What is my Roth IRA balance?''
         example_tools start
       = (Inr (Function_call ''getAccountBalance'' roth_arguments ''call_1''), w1)"
    and inv: "invokeTool example_tools ''getAccountBalance'' roth_arguments w1 = (Inr res, w2)"
    and h: "handleFunctionResult example_runtime always_calls Config ''call_1''
         ''getAccountBalance'' res w2
       = (Inr (Function_call ''getAccountBalance'' roth_arguments ''call_1''), w3)"
    using always_calls_run [of "''What is my Roth IRA balance?''"] by blast
  have i: "''call_1'' \<noteq> []" by simp
  from one_tool_execution_per_prompt [where rt = example_runtime and fetch = always_calls
      and cfg = Config and ts = example_tools and prompt = "''What is my Roth IRA balance?''"
      and w = start and fmt = no_format]
  have "processUserPromptWithLLM example_runtime always_calls no_format Config example_tools
         ''What is my Roth IRA balance?'' start
       = (Inr (Final (Function_call ''getAccountBalance'' roth_arguments ''call_1'')), w3)
     \<and> filter is_ExecuteTool (events w3) = filter is_ExecuteTool (events w2)"
    using g i inv h by blast
  with g i inv h show ?thesis by blast
qed

text \<open>
  C2 (amended). There is no loop and no cap on round trips in
  \<^verbatim>\<open>processUserPromptWithLLM\<close>. With the OpenAI provider configured, against a stub that
  answers every request with a tool call (arguments that parse, a call id), processing
  one prompt ends after exactly two requests to the provider, and it does not end in an
  error outcome. The tool of the first reply is the only one executed, between the two
  requests, and only if it is registered. The result is the function-call response built
  from the reply to the second request, which was sent without a tool set: a response
  without a \<^verbatim>\<open>message\<close>, whose tool is not executed.
\<close>

theorem always_tool_call_ends_without_error:
  assumes "always_tool_call rt fetch"
    and "\<not> enableMockMode cfg" and "apiKey cfg \<noteq> []" and "provider cfg = ''openai''"
  shows "\<not> Errored (fst (processUserPromptWithLLM rt fetch fmt cfg ts prompt w))
       \<and> (\<exists>req1 r1 m1 ms1 tc1 tcs1 a1 req2 r2 m2 ms2 tc2 tcs2 a2 w'.
             fetch (length (filter is_Fetch (events w))) req1 = HttpOk r1
             \<and> choices r1 = m1 # ms1 \<and> tool_calls m1 = Some (tc1 # tcs1)
             \<and> JSON_parse rt (function_arguments tc1) = Some a1
             \<and> fetch (Suc (length (filter is_Fetch (events w)))) req2 = HttpOk r2
             \<and> choices r2 = m2 # ms2 \<and> tool_calls m2 = Some (tc2 # tcs2)
             \<and> JSON_parse rt (function_arguments tc2) = Some a2
             \<and> processUserPromptWithLLM rt fetch fmt cfg ts prompt w
                 = (Inr (Final (Function_call (function_name tc2) a2 (call_id tc2))), w')
             \<and> response_message (Function_call (function_name tc2) a2 (call_id tc2)) = None
             \<and> events w' =
                 events w @ [Fetch (baseUrl cfg @ ''/chat/completions'') (apiKey cfg) req1]
                   @ (if Map_has ts (function_name tc1)
                      then [ExecuteTool (function_name tc1) a1] else [])
                   @ [Fetch (baseUrl cfg @ ''/chat/completions'') (apiKey cfg) req2]
             \<and> req_tools req2 = None
             \<and> length (filter is_Fetch (events w')) = length (filter is_Fetch (events w)) + 2
             \<and> length (filter is_ExecuteTool (events w'))
                 \<le> length (filter is_ExecuteTool (events w)) + 1)"
proof -
  from always_tool_call_outcome [OF assms, of w fmt ts prompt]
  obtain req1 r1 m1 ms1 tc1 tcs1 a1 req2 r2 m2 ms2 tc2 tcs2 a2 w' where
    f: "fetch (length (filter is_Fetch (events w))) req1 = HttpOk r1"
       "choices r1 = m1 # ms1" "tool_calls m1 = Some (tc1 # tcs1)"
       "JSON_parse rt (function_arguments tc1) = Some a1"
       "fetch (Suc (length (filter is_Fetch (events w)))) req2 = HttpOk r2"
       "choices r2 = m2 # ms2" "tool_calls m2 = Some (tc2 # tcs2)"
       "JSON_parse rt (function_arguments tc2) = Some a2"
    and p: "processUserPromptWithLLM rt fetch fmt cfg ts prompt w
             = (Inr (Final (Function_call (function_name tc2) a2 (call_id tc2))), w')"
    and e: "events w' =
             events w @ [Fetch (baseUrl cfg @ ''/chat/completions'') (apiKey cfg) req1]
               @ (if Map_has ts (function_name tc1)
                  then [ExecuteTool (function_name tc1) a1] else [])
               @ [Fetch (baseUrl cfg @ ''/chat/completions'') (apiKey cfg) req2]"
    and t: "req_tools req2 = None"
    by blast
  have n1: "length (filter is_Fetch (events w')) = length (filter is_Fetch (events w)) + 2"
    using e by simp
  have n2: "length (filter is_ExecuteTool (events w'))
                 \<le> length (filter is_ExecuteTool (events w)) + 1"
    using e by simp
  have r: "response_message (Function_call (function_name tc2) a2 (call_id tc2)) = None"
    by simp
  have "\<not> Errored (fst (processUserPromptWithLLM rt fetch fmt cfg ts prompt w))"
    using p by simp
  moreover from f p r e t n1 n2
  have "\<exists>req1 r1 m1 ms1 tc1 tcs1 a1 req2 r2 m2 ms2 tc2 tcs2 a2 w'.
             fetch (length (filter is_Fetch (events w))) req1 = HttpOk r1
             \<and> choices r1 = m1 # ms1 \<and> tool_calls m1 = Some (tc1 # tcs1)
             \<and> JSON_parse rt (function_arguments tc1) = Some a1
             \<and> fetch (Suc (length (filter is_Fetch (events w)))) req2 = HttpOk r2
             \<and> choices r2 = m2 # ms2 \<and> tool_calls m2 = Some (tc2 # tcs2)
             \<and> JSON_parse rt (function_arguments tc2) = Some a2
             \<and> processUserPromptWithLLM rt fetch fmt cfg ts prompt w
                 = (Inr (Final (Function_call (function_name tc2) a2 (call_id tc2))), w')
             \<and> response_message (Function_call (function_name tc2) a2 (call_id tc2)) = None
             \<and> events w' =
                 events w @ [Fetch (baseUrl cfg @ ''/chat/completions'') (apiKey cfg) req1]
                   @ (if Map_has ts (function_name tc1)
                      then [ExecuteTool (function_name tc1) a1] else [])
                   @ [Fetch (baseUrl cfg @ ''/chat/completions'') (apiKey cfg) req2]
             \<and> req_tools req2 = None
             \<and> length (filter is_Fetch (events w')) = length (filter is_Fetch (events w)) + 2
             \<and> length (filter is_ExecuteTool (events w'))
                 \<le> length (filter is_ExecuteTool (events w)) + 1"
    by blast
  ultimately show ?thesis by blast
qed

lemma balance_then_transfer_is_always_tool_call:
  "always_tool_call example_runtime balance_then_transfer"
  by (simp add: always_tool_call_def balance_then_transfer_def example_runtime_def
        balance_call_def transfer_call_def)

text \<open>The amended statement at the configuration of the source and a stub whose first
  reply asks for the balance and whose second reply asks for a transfer: the balance
  tool is executed, the transfer call is handed back.\<close>

theorem always_tool_call_ends_without_error_witness:
  "always_tool_call example_runtime balance_then_transfer
   \<and> \<not> enableMockMode Config \<and> apiKey Config \<noteq> [] \<and> provider Config = ''openai''
   \<and> fst (processUserPromptWithLLM example_runtime balance_then_transfer no_format Config
            example_tools ''What is my Roth IRA balance?'' start)
       = Inr (Final (Function_call ''initiateFundTransfer'' transfer_arguments ''call_7''))
   \<and> \<not> Errored (fst (processUserPromptWithLLM example_runtime balance_then_transfer no_format
                        Config example_tools ''What is my Roth IRA balance?'' start))
   \<and> filter is_ExecuteTool
        (events (snd (processUserPromptWithLLM example_runtime balance_then_transfer no_format
                        Config example_tools ''What is my Roth IRA balance?'' start)))
       = [ExecuteTool ''getAccountBalance'' roth_arguments]
   \<and> length (filter is_Fetch
        (events (snd (processUserPromptWithLLM example_runtime balance_then_transfer no_format
                        Config example_tools ''What is my Roth IRA balance?'' start)))) = 2"
proof -
  let ?P = "processUserPromptWithLLM example_runtime balance_then_transfer no_format Config
              example_tools ''What is my Roth IRA balance?'' start"
  from always_tool_call_ends_without_error
         [OF balance_then_transfer_is_always_tool_call Config_usable,
          of no_format example_tools "''What is my Roth IRA balance?''" start]
  obtain req1 r1 m1 ms1 tc1 tcs1 a1 req2 r2 m2 ms2 tc2 tcs2 a2 w' where
    ne: "\<not> Errored (fst ?P)"
    and f1: "balance_then_transfer (length (filter is_Fetch (events start))) req1 = HttpOk r1"
       "choices r1 = m1 # ms1" "tool_calls m1 = Some (tc1 # tcs1)"
       "JSON_parse example_runtime (function_arguments tc1) = Some a1"
    and f2: "balance_then_transfer (Suc (length (filter is_Fetch (events start)))) req2 = HttpOk r2"
       "choices r2 = m2 # ms2" "tool_calls m2 = Some (tc2 # tcs2)"
       "JSON_parse example_runtime (function_arguments tc2) = Some a2"
    and p: "?P = (Inr (Final (Function_call (function_name tc2) a2 (call_id tc2))), w')"
    and e: "events w' =
             events start @ [Fetch (baseUrl Config @ ''/chat/completions'') (apiKey Config) req1]
               @ (if Map_has example_tools (function_name tc1)
                  then [ExecuteTool (function_name tc1) a1] else [])
               @ [Fetch (baseUrl Config @ ''/chat/completions'') (apiKey Config) req2]"
    by blast
  have tc1: "tc1 = balance_call"
    using f1(1,2,3) by (auto simp: balance_then_transfer_def start_def)
  have a1: "a1 = roth_arguments"
    using f1(4) by (simp add: tc1 example_runtime_def balance_call_def)
  have tc2: "tc2 = transfer_call"
    using f2(1,2,3) by (auto simp: balance_then_transfer_def)
  have a2: "a2 = transfer_arguments"
    using f2(4) by (simp add: tc2 example_runtime_def transfer_call_def)
  have reg: "Map_has example_tools ''getAccountBalance''"
    by (simp add: example_tools_eq Map_has_def)
  have r: "fst ?P = Inr (Final (Function_call ''initiateFundTransfer'' transfer_arguments ''call_7''))"
    using p by (simp add: tc2 a2 transfer_call_def)
  have ev: "events (snd ?P) =
      [Fetch (baseUrl Config @ ''/chat/completions'') (apiKey Config) req1,
       ExecuteTool ''getAccountBalance'' roth_arguments,
       Fetch (baseUrl Config @ ''/chat/completions'') (apiKey Config) req2]"
    using p e reg by (simp add: tc1 a1 balance_call_def start_def)
  show ?thesis
    using balance_then_transfer_is_always_tool_call Config_usable r ne
    by (simp add: ev)
qed

text \<open>C2 as stated fails: against a stub that always answers with a tool call, the
  outcome is not an error; it is the second function-call response, after two requests
  and one tool execution.\<close>

theorem always_tool_call_counterexample:
  "always_tool_call example_runtime always_calls
   \<and> fst (processUserPromptWithLLM example_runtime always_calls no_format Config example_tools
            ''What is my Roth IRA balance?'' start)
       = Inr (Final (Function_call ''getAccountBalance'' roth_arguments ''call_1''))
   \<and> \<not> Errored (fst (processUserPromptWithLLM example_runtime always_calls no_format Config
                        example_tools ''What is my Roth IRA balance?'' start))
   \<and> length (filter is_Fetch
        (events (snd (processUserPromptWithLLM example_runtime always_calls no_format Config
                        example_tools ''What is my Roth IRA balance?'' start)))) = 2"
proof -
  obtain w1 res w2 w3 where
    g: "generateResponse example_runtime always_calls Config ''What is my Roth IRA balance?''
         example_tools start
       = (Inr (Function_call ''getAccountBalance'' roth_arguments ''call_1''), w1)"
    and inv: "invokeTool example_tools ''getAccountBalance'' roth_arguments w1 = (Inr res, w2)"
    and h: "handleFunctionResult example_runtime always_calls Config ''call_1''
         ''getAccountBalance'' res w2
       = (Inr (Function_call ''getAccountBalance'' roth_arguments ''call_1''), w3)"
    using always_calls_run [of "''What is my Roth IRA balance?''"] by blast
  have i: "''call_1'' \<noteq> []" by simp
  have p: "processUserPromptWithLLM example_runtime always_calls no_format Config example_tools
            ''What is my Roth IRA balance?'' start
       = (Inr (Final (Function_call ''getAccountBalance'' roth_arguments ''call_1'')), w3)"
    using g i inv h by (rule follow_up_is_final)
  from always_tool_call_outcome [OF always_calls_is_always_tool_call Config_usable,
          of start no_format example_tools "''What is my Roth IRA balance?''"]
  have "length (filter is_Fetch (events w3)) = 2"
    using p by (auto simp: start_def)
  with p always_calls_is_always_tool_call show ?thesis by simp
qed

end
